theory Spec2Isabelle
  imports Main
begin

section \<open>Values shared by the handlers\<close>

text \<open>
  The server (the express application in \<^verbatim>\<open>scripts/seedDatabase.js\<close>) is modelled
  handler by handler. Request fields carry the types the Mongoose schemas declare for
  them: a text field is an optional string (\<open>None\<close> for \<^verbatim>\<open>undefined\<close> or
  \<^verbatim>\<open>null\<close>), a numeric field an optional integer. Strings are lists of 8-bit
  characters. Times are milliseconds since the epoch, as \<^verbatim>\<open>Date.now()\<close> gives
  them; a handler reads the clock once. The rate limiters in front of the routes are
  not modelled: a request is one that reaches its handler.
  Everything a handler obtains from outside the process (the gateway's replies, the
  mail provider's outcome, the clock, the random number) is an argument of its model.
\<close>

text \<open>JavaScript truthiness of an optional string: present and not empty.\<close>

definition truthy :: "string option \<Rightarrow> bool" where
  "truthy v = (case v of None \<Rightarrow> False | Some s \<Rightarrow> s \<noteq> [])"

text \<open>
  What a \<^verbatim>\<open>catch\<close> block can see of a thrown value: an axios error carries the
  upstream body's \<^verbatim>\<open>message\<close> and \<^verbatim>\<open>code\<close> (either may be missing); any other
  error (a plain \<^verbatim>\<open>Error\<close>, a \<^verbatim>\<open>TypeError\<close>, a Mongoose error) has no
  \<^verbatim>\<open>response\<close>.
\<close>

datatype exn = AxiosError "string option" "string option" | PlainError

section \<open>Credential cache\<close>

record token_data =
  access_token :: "string option"
  expires_at :: "int option"

text \<open>\<^verbatim>\<open>expiresAt\<close> is \<open>None\<close> when the stored number is \<^verbatim>\<open>NaN\<close>
  (\<^verbatim>\<open>undefined * 1000\<close>); every comparison with it is false.\<close>

record token_cache =
  token :: "string option"
  expiresAt :: "int option"

definition tokenCache_init :: token_cache where
  "tokenCache_init = \<lparr>token = None, expiresAt = Some 0\<rparr>"

definition cache_hit :: "int \<Rightarrow> token_cache \<Rightarrow> bool" where
  "cache_hit now c =
     (truthy (token c) \<and> (case expiresAt c of None \<Rightarrow> False | Some e \<Rightarrow> now < e - 60000))"

text \<open>
  \<^verbatim>\<open>generateAuthToken\<close>: the second argument is the outcome of the POST to the token
  endpoint (\<open>Inl\<close> when axios throws, \<open>Inr\<close> the response's \<^verbatim>\<open>data\<close>), consulted
  only when the cache check fails. The result is the token or the thrown error, and the
  cache afterwards.
\<close>

definition generateAuthToken ::
  "int \<Rightarrow> exn + token_data option \<Rightarrow> token_cache \<Rightarrow> (exn + string) \<times> token_cache" where
  "generateAuthToken now reply c =
     (if cache_hit now c then (case token c of Some t \<Rightarrow> (Inr t, c) | None \<Rightarrow> (Inl PlainError, c))
      else (case reply of
              Inr (Some d) \<Rightarrow>
                (case access_token d of
                   Some t \<Rightarrow>
                     if t \<noteq> [] then
                       (Inr t, \<lparr>token = Some t, expiresAt = map_option (\<lambda>s. s * 1000) (expires_at d)\<rparr>)
                     else (Inl PlainError, \<lparr>token = None, expiresAt = Some 0\<rparr>)
                 | None \<Rightarrow> (Inl PlainError, \<lparr>token = None, expiresAt = Some 0\<rparr>))
            | _ \<Rightarrow> (Inl PlainError, \<lparr>token = None, expiresAt = Some 0\<rparr>)))"

text \<open>The exchange succeeded: the reply has a body with a non-empty \<^verbatim>\<open>access_token\<close>.\<close>

definition exchanged :: "exn + token_data option \<Rightarrow> token_data \<Rightarrow> string \<Rightarrow> bool" where
  "exchanged reply d t = (reply = Inr (Some d) \<and> access_token d = Some t \<and> t \<noteq> [])"

definition exchange_failed :: "exn + token_data option \<Rightarrow> bool" where
  "exchange_failed reply =
     (case reply of Inl e \<Rightarrow> True | Inr None \<Rightarrow> True | Inr (Some d) \<Rightarrow> \<not> truthy (access_token d))"

section \<open>Documents and the store\<close>

text \<open>The body of \<^verbatim>\<open>POST /api/application/submit\<close>: the applicant's fields, as
  the form sends them. Other keys of a body are not modelled.\<close>

record submission =
  name :: "string option"
  email :: "string option"
  phone :: "string option"
  dob :: "string option"
  gender :: "string option"
  category :: "string option"
  school :: "string option"
  state :: "string option"
  district :: "string option"
  pincode :: "string option"
  address :: "string option"
  income_amount :: "int option"
  income_band :: "string option"
  achievements :: "string option"
  recommendation :: "string option"
  sop :: "string option"

text \<open>
  An Application document. \<open>details\<close> holds the submitted fields as they were saved;
  the two lookup keys are kept beside them. The fields that the Payment schema also has
  carry the prefix \<open>app_\<close>.
\<close>

record application =
  app_applicationId :: string
  app_email :: string
  app_phone :: string
  details :: submission
  app_status :: string
  paymentStatus :: string
  paymentOrderId :: "string option"
  app_createdAt :: int
  app_updatedAt :: int

text \<open>The \<^verbatim>\<open>data\<close> of a gateway reply to order creation or to a status query.\<close>

record gw_data =
  gw_state :: "string option"
  gw_orderId :: "string option"
  gw_redirectUrl :: "string option"
  gw_expireAt :: "int option"

record payment =
  applicationId :: string
  merchantOrderId :: string
  phonePeOrderId :: "string option"
  amount :: int
  status :: string
  phonePeResponse :: "gw_data option"
  createdAt :: int
  updatedAt :: int

text \<open>One call of \<^verbatim>\<open>sendConfirmationEmail\<close>: the application it was called with,
  the order id, and what the call returned.\<close>

record notification =
  note_applicationId :: string
  note_to :: string
  note_orderId :: "string option"
  note_sent :: bool

text \<open>The two collections (in insertion order), the process-wide token cache and the
  log of notification calls.\<close>

record store =
  applications :: "application list"
  payments :: "payment list"
  tokenCache :: token_cache
  outbox :: "notification list"

text \<open>\<^verbatim>\<open>Model.findOneAndUpdate(filter, update, {new: true})\<close>: the first match is
  updated and returned as updated; with no match nothing changes and the result is
  \<^verbatim>\<open>null\<close>.\<close>

fun findOneAndUpdate :: "('a \<Rightarrow> bool) \<Rightarrow> ('a \<Rightarrow> 'a) \<Rightarrow> 'a list \<Rightarrow> 'a option \<times> 'a list" where
  "findOneAndUpdate P f [] = (None, [])"
| "findOneAndUpdate P f (x # xs) =
     (if P x then (Some (f x), f x # xs)
      else (fst (findOneAndUpdate P f xs), x # snd (findOneAndUpdate P f xs)))"

text \<open>The JSON a handler answers with, and the response: HTTP status and JSON.\<close>

datatype reply_body =
    SubmitOk string int
  | ValidationFailed "string list"
  | Message string
  | ExistingPayment string string string int
  | InitiateOk "string option" "string option" "string option" "int option"
  | StatusOk gw_data string string int int

type_synonym response = "nat \<times> reply_body"

section \<open>Application intake\<close>

text \<open>\<^verbatim>\<open>String.prototype.trim\<close> on the characters a \<open>char\<close> can hold: tab, line feed,
  vertical tab, form feed, carriage return, space and no-break space.\<close>

definition isSpace :: "char \<Rightarrow> bool" where
  "isSpace c = (c \<in> set [CHR 0x09, CHR 0x0A, CHR 0x0B, CHR 0x0C, CHR 0x0D, CHR 0x20, CHR 0xA0])"

definition trim :: "string \<Rightarrow> string" where
  "trim s = rev (dropWhile isSpace (rev (dropWhile isSpace s)))"

text \<open>\<^verbatim>\<open>sanitizeInput\<close>: every string of the body is trimmed, and an empty result
  becomes \<^verbatim>\<open>undefined\<close>. Numbers are left alone.\<close>

definition sanitizeField :: "string option \<Rightarrow> string option" where
  "sanitizeField v =
     (case v of None \<Rightarrow> None | Some s \<Rightarrow> (if trim s = [] then None else Some (trim s)))"

definition sanitizeInput :: "submission \<Rightarrow> submission" where
  "sanitizeInput b =
     \<lparr>name = sanitizeField (name b), email = sanitizeField (email b),
      phone = sanitizeField (phone b), dob = sanitizeField (dob b),
      gender = sanitizeField (gender b), category = sanitizeField (category b),
      school = sanitizeField (school b), state = sanitizeField (state b),
      district = sanitizeField (district b), pincode = sanitizeField (pincode b),
      address = sanitizeField (address b), income_amount = income_amount b,
      income_band = sanitizeField (income_band b),
      achievements = sanitizeField (achievements b),
      recommendation = sanitizeField (recommendation b), sop = sanitizeField (sop b)\<rparr>"

definition isDigit :: "char \<Rightarrow> bool" where
  "isDigit c = (c \<in> set ''0123456789'')"

text \<open>\<^verbatim>\<open>validatePhoneNumber\<close>: the regular expression \<^verbatim>\<open>/^[6-9]\d{9}$/\<close>.\<close>

definition validatePhoneNumber :: "string \<Rightarrow> bool" where
  "validatePhoneNumber p =
     (case p of [] \<Rightarrow> False
      | c # cs \<Rightarrow> c \<in> set ''6789'' \<and> length cs = 9 \<and> list_all isDigit cs)"

text \<open>\<^verbatim>\<open>!data.f?.trim()\<close>: the field is missing or trims to the empty string.\<close>

definition blank :: "string option \<Rightarrow> bool" where
  "blank v = (case v of None \<Rightarrow> True | Some s \<Rightarrow> trim s = [])"

definition push_if :: "bool \<Rightarrow> string \<Rightarrow> string list" where
  "push_if c msg = (if c then [msg] else [])"

text \<open>\<^verbatim>\<open>validateApplicationData\<close>; \<open>isEmail\<close> stands for \<^verbatim>\<open>validator.isEmail\<close>
  of the \<^verbatim>\<open>validator\<close> package. The messages are pushed in the source's order.\<close>

definition validateApplicationData :: "(string \<Rightarrow> bool) \<Rightarrow> submission \<Rightarrow> string list" where
  "validateApplicationData isEmail data =
     push_if (blank (name data)) ''Name is required''
   @ push_if (blank (email data)) ''Email is required''
   @ push_if (case email data of None \<Rightarrow> False | Some e \<Rightarrow> e \<noteq> [] \<and> \<not> isEmail (trim e))
       ''Invalid email format''
   @ push_if (blank (phone data)) ''Phone number is required''
   @ push_if (case phone data of None \<Rightarrow> False | Some p \<Rightarrow> p \<noteq> [] \<and> \<not> validatePhoneNumber (trim p))
       ''Invalid Indian phone number''
   @ push_if (\<not> truthy (dob data)) ''Date of birth is required''
   @ push_if (blank (gender data)) ''Gender is required''
   @ push_if (blank (category data)) ''Class/Course is required''
   @ push_if (blank (school data)) ''School/College name is required''
   @ push_if (blank (state data)) ''State is required''
   @ push_if (blank (district data)) ''District is required''
   @ push_if (blank (pincode data)) ''Pincode is required''
   @ push_if (blank (address data)) ''Address is required''
   @ push_if (case income_amount data of None \<Rightarrow> True | Some n \<Rightarrow> n = 0) ''Family income is required''
   @ push_if (blank (income_band data)) ''Income band is required''
   @ push_if (blank (achievements data)) ''Achievements are required''
   @ push_if (blank (recommendation data)) ''Recommendation is required''
   @ push_if (blank (sop data)) ''Statement of purpose is required''
   @ push_if (case sop data of None \<Rightarrow> False | Some s \<Rightarrow> s \<noteq> [] \<and> length s < 50)
       ''Statement of purpose must be at least 50 characters''"

text \<open>Decimal rendering of a number inside a template string.\<close>

fun dec :: "nat \<Rightarrow> string" where
  "dec n = (if n < 10 then [''0123456789'' ! n] else dec (n div 10) @ [''0123456789'' ! (n mod 10)])"

declare dec.simps [simp del]

definition show_int :: "int \<Rightarrow> string" where
  "show_int i = (if i < 0 then CHR ''-'' # dec (nat (- i)) else dec (nat i))"

text \<open>The identifier of a new application; \<open>r\<close> is
  \<^verbatim>\<open>Math.floor(Math.random() * 1000)\<close>.\<close>

definition newApplicationId :: "int \<Rightarrow> nat \<Rightarrow> string" where
  "newApplicationId now r = ''NF2025'' @ show_int now @ dec r"

text \<open>What \<^verbatim>\<open>application.save()\<close> validates beyond the handler's own checks: the
  \<^verbatim>\<open>gender\<close> enumeration of the schema, and that \<^verbatim>\<open>new Date(req.body.dob)\<close> is a
  valid date (\<open>validDate\<close> stands for the engine's date parser).\<close>

definition schemaAccepts :: "(string \<Rightarrow> bool) \<Rightarrow> submission \<Rightarrow> bool" where
  "schemaAccepts validDate b =
     ((case gender b of None \<Rightarrow> False | Some g \<Rightarrow> g \<in> set [''Male'', ''Female'', ''Other''])
      \<and> (case dob b of None \<Rightarrow> False | Some d \<Rightarrow> validDate d))"

text \<open>The query \<^verbatim>\<open>{$or: [{email}, {phone}]}\<close> of the duplicate check.\<close>

definition sameContact :: "submission \<Rightarrow> application \<Rightarrow> bool" where
  "sameContact b a = (email b = Some (app_email a) \<or> phone b = Some (app_phone a))"

text \<open>\<^verbatim>\<open>new Application({...req.body, applicationId, dob})\<close> with the schema's
  defaults.\<close>

definition newApplication :: "string \<Rightarrow> string \<Rightarrow> string \<Rightarrow> submission \<Rightarrow> int \<Rightarrow> application" where
  "newApplication appId e p b now =
     \<lparr>app_applicationId = appId, app_email = e, app_phone = p, details = b,
      app_status = ''pending'', paymentStatus = ''pending'', paymentOrderId = None,
      app_createdAt = now, app_updatedAt = now\<rparr>"

text \<open>
  The handler of \<^verbatim>\<open>POST /api/application/submit\<close>, on the body that
  \<^verbatim>\<open>sanitizeInput\<close> hands it. A failing \<^verbatim>\<open>save\<close> (schema validation, or the
  unique index on \<^verbatim>\<open>applicationId\<close>) throws into the handler's \<^verbatim>\<open>catch\<close>, which
  answers 500.
\<close>

definition submitHandler ::
  "(string \<Rightarrow> bool) \<Rightarrow> (string \<Rightarrow> bool) \<Rightarrow> int \<Rightarrow> nat \<Rightarrow> submission \<Rightarrow> store \<Rightarrow> response \<times> store" where
  "submitHandler isEmail validDate now r b st =
     (if validateApplicationData isEmail b \<noteq> [] then
        ((400, ValidationFailed (validateApplicationData isEmail b)), st)
      else
        (case find (sameContact b) (applications st) of
           Some a \<Rightarrow>
             ((409, Message ''Application already exists with this email or phone number''), st)
         | None \<Rightarrow>
             (case (email b, phone b) of
                (Some e, Some p) \<Rightarrow>
                  if schemaAccepts validDate b
                     \<and> newApplicationId now r \<notin> set (map app_applicationId (applications st))
                  then
                    ((201, SubmitOk (newApplicationId now r) now),
                     st\<lparr>applications := applications st @
                        [newApplication (newApplicationId now r) e p b now]\<rparr>)
                  else ((500, Message ''Application submission failed''), st)
              | _ \<Rightarrow> ((500, Message ''Application submission failed''), st))))"

text \<open>The route: the middleware, then the handler.\<close>

definition submit ::
  "(string \<Rightarrow> bool) \<Rightarrow> (string \<Rightarrow> bool) \<Rightarrow> int \<Rightarrow> nat \<Rightarrow> submission \<Rightarrow> store \<Rightarrow> response \<times> store" where
  "submit isEmail validDate now r raw st =
     submitHandler isEmail validDate now r (sanitizeInput raw) st"

section \<open>Payment initiation\<close>

text \<open>The body of \<^verbatim>\<open>POST /api/payment/initiate\<close>.\<close>

record initiation =
  req_applicationId :: "string option"
  req_amount :: "int option"
  req_name :: "string option"
  req_email :: "string option"
  req_phone :: "string option"
  req_merchantOrderId :: "string option"

definition sanitizeInitiation :: "initiation \<Rightarrow> initiation" where
  "sanitizeInitiation b =
     \<lparr>req_applicationId = sanitizeField (req_applicationId b), req_amount = req_amount b,
      req_name = sanitizeField (req_name b), req_email = sanitizeField (req_email b),
      req_phone = sanitizeField (req_phone b),
      req_merchantOrderId = sanitizeField (req_merchantOrderId b)\<rparr>"

text \<open>The message of a 500 answer, chosen in the \<^verbatim>\<open>catch\<close> block of both payment
  handlers.\<close>

definition errorMessage :: "string \<Rightarrow> exn \<Rightarrow> string" where
  "errorMessage dflt e =
     (case e of
        PlainError \<Rightarrow> dflt
      | AxiosError m c \<Rightarrow>
          if truthy m then (case m of Some s \<Rightarrow> s | None \<Rightarrow> dflt)
          else if truthy c then ''PhonePe Error: '' @ (case c of Some s \<Rightarrow> s | None \<Rightarrow> [])
          else dflt)"

text \<open>\<^verbatim>\<open>checkDuplicatePayment(applicationId, timeWindowMinutes = 30)\<close> at clock reading
  \<open>now\<close>: the first payment of the application that is completed and was created at
  or after the cutoff.\<close>

definition checkDuplicatePayment :: "string \<Rightarrow> int \<Rightarrow> int \<Rightarrow> payment list \<Rightarrow> payment option" where
  "checkDuplicatePayment appId timeWindowMinutes now ps =
     find (\<lambda>p. applicationId p = appId \<and> status p = ''completed''
                \<and> now - timeWindowMinutes * 60 * 1000 \<le> createdAt p) ps"

text \<open>\<^verbatim>\<open>!applicationId || !amount || !name || !email || !phone || !merchantOrderId\<close>.\<close>

definition missingFields :: "initiation \<Rightarrow> bool" where
  "missingFields b =
     (\<not> truthy (req_applicationId b) \<or> (case req_amount b of None \<Rightarrow> True | Some n \<Rightarrow> n = 0)
      \<or> \<not> truthy (req_name b) \<or> \<not> truthy (req_email b) \<or> \<not> truthy (req_phone b)
      \<or> \<not> truthy (req_merchantOrderId b))"

text \<open>\<^verbatim>\<open>new Payment({...})\<close> after the gateway accepted the order.\<close>

definition newPayment :: "string \<Rightarrow> string \<Rightarrow> int \<Rightarrow> gw_data \<Rightarrow> int \<Rightarrow> payment" where
  "newPayment appId mo amt d now =
     \<lparr>applicationId = appId, merchantOrderId = mo, phonePeOrderId = gw_orderId d,
      amount = amt * 100, status = ''initiated'', phonePeResponse = Some d,
      createdAt = now, updatedAt = now\<rparr>"

text \<open>The part of the handler after the token: the gateway's answer to order creation
  (\<open>Inl\<close> when axios throws), then \<^verbatim>\<open>payment.save()\<close>, which the unique index on
  \<^verbatim>\<open>merchantOrderId\<close> lets fail.\<close>

definition createOrder ::
  "int \<Rightarrow> exn + gw_data option \<Rightarrow> string \<Rightarrow> string \<Rightarrow> int \<Rightarrow> store \<Rightarrow> response \<times> store" where
  "createOrder now orderReply appId mo amt st =
     (case orderReply of
        Inl e \<Rightarrow> ((500, Message (errorMessage ''Payment initiation failed'' e)), st)
      | Inr None \<Rightarrow> ((500, Message ''Payment initiation failed''), st)
      | Inr (Some d) \<Rightarrow>
          if truthy (gw_redirectUrl d) \<and> truthy (gw_orderId d) then
            if mo \<in> set (map merchantOrderId (payments st)) then
              ((500, Message ''Payment initiation failed''), st)
            else
              ((200, InitiateOk (gw_orderId d) (gw_redirectUrl d) (gw_state d) (gw_expireAt d)),
               st\<lparr>payments := payments st @ [newPayment appId mo amt d now]\<rparr>)
          else ((500, Message ''Payment initiation failed''), st))"

text \<open>
  The handler of \<^verbatim>\<open>POST /api/payment/initiate\<close> on the sanitized body. \<open>tokenReply\<close>
  and \<open>orderReply\<close> are what the gateway answers to the token exchange (if one is made)
  and to the order creation.
\<close>

definition initiateHandler ::
  "int \<Rightarrow> exn + token_data option \<Rightarrow> exn + gw_data option \<Rightarrow> initiation \<Rightarrow> store
     \<Rightarrow> response \<times> store" where
  "initiateHandler now tokenReply orderReply b st =
     (case (req_applicationId b, req_amount b, req_merchantOrderId b) of
        (Some appId, Some amt, Some mo) \<Rightarrow>
          if missingFields b then ((400, Message ''Missing required fields''), st)
          else if amt \<noteq> 99 then ((400, Message ''Invalid amount''), st)
          else
            (case find (\<lambda>p. merchantOrderId p = mo) (payments st) of
               Some existingPayment \<Rightarrow>
                 ((409, ExistingPayment ''Payment already exists for this order ID''
                          (merchantOrderId existingPayment) (status existingPayment)
                          (createdAt existingPayment)), st)
             | None \<Rightarrow>
                 (case checkDuplicatePayment appId 30 now (payments st) of
                    Some duplicatePayment \<Rightarrow>
                      ((409, ExistingPayment
                               (''Payment already exists for this application. Status: ''
                                  @ status duplicatePayment)
                               (merchantOrderId duplicatePayment) (status duplicatePayment)
                               (createdAt duplicatePayment)), st)
                  | None \<Rightarrow>
                      (case generateAuthToken now tokenReply (tokenCache st) of
                         (Inl e, c) \<Rightarrow>
                           ((500, Message (errorMessage ''Payment initiation failed'' e)),
                            st\<lparr>tokenCache := c\<rparr>)
                       | (Inr authToken, c) \<Rightarrow>
                           createOrder now orderReply appId mo amt (st\<lparr>tokenCache := c\<rparr>))))
      | _ \<Rightarrow> ((400, Message ''Missing required fields''), st))"

definition initiate ::
  "int \<Rightarrow> exn + token_data option \<Rightarrow> exn + gw_data option \<Rightarrow> initiation \<Rightarrow> store
     \<Rightarrow> response \<times> store" where
  "initiate now tokenReply orderReply raw st =
     initiateHandler now tokenReply orderReply (sanitizeInitiation raw) st"

section \<open>Status reconciliation\<close>

text \<open>The \<^verbatim>\<open>switch (orderState)\<close> of the status handler, one function for each
  variable it assigns.\<close>

definition localStatus :: "string option \<Rightarrow> string" where
  "localStatus orderState =
     (if orderState = Some ''COMPLETED'' then ''completed''
      else if orderState = Some ''FAILED'' then ''failed''
      else if orderState = Some ''PENDING'' then ''pending''
      else ''pending'')"

definition applicationStatus :: "string option \<Rightarrow> string" where
  "applicationStatus orderState =
     (if orderState = Some ''COMPLETED'' then ''paid''
      else if orderState = Some ''FAILED'' then ''pending''
      else if orderState = Some ''PENDING'' then ''pending''
      else ''pending'')"

definition shouldSendEmail :: "string option \<Rightarrow> payment \<Rightarrow> bool" where
  "shouldSendEmail orderState localPayment =
     (if orderState = Some ''COMPLETED'' then status localPayment \<noteq> ''completed'' else False)"

text \<open>What the mail provider does with a message. \<^verbatim>\<open>sendConfirmationEmail\<close> never
  throws: without a configured provider it returns false at once, and it catches
  whatever the provider's client throws.\<close>

datatype mailer = NotConfigured | Accepted | Refused | Crashed

definition sendConfirmationEmail ::
  "mailer \<Rightarrow> application \<Rightarrow> string option \<Rightarrow> notification list \<Rightarrow> bool \<times> notification list" where
  "sendConfirmationEmail mail a orderId log =
     (mail = Accepted,
      log @ [\<lparr>note_applicationId = app_applicationId a, note_to = app_email a,
              note_orderId = orderId, note_sent = (mail = Accepted)\<rparr>])"

text \<open>A value of an update document: a key whose value is \<^verbatim>\<open>undefined\<close> is dropped
  from the update and the stored value stays; \<^verbatim>\<open>null\<close> is written.\<close>

datatype 'a patch = Keep | SetNull | SetTo 'a

definition apply_patch :: "'a patch \<Rightarrow> 'a option \<Rightarrow> 'a option" where
  "apply_patch u stored = (case u of Keep \<Rightarrow> stored | SetNull \<Rightarrow> None | SetTo v \<Rightarrow> Some v)"

text \<open>\<^verbatim>\<open>response.data.orderId\<close> as a value of an update document.\<close>

definition orderIdPatch :: "gw_data \<Rightarrow> string patch" where
  "orderIdPatch d = (case gw_orderId d of None \<Rightarrow> Keep | Some v \<Rightarrow> SetTo v)"

text \<open>The two updates of the status handler.\<close>

definition paymentUpdate :: "int \<Rightarrow> gw_data \<Rightarrow> payment \<Rightarrow> payment" where
  "paymentUpdate now d p =
     p\<lparr>status := localStatus (gw_state d),
       phonePeOrderId := apply_patch (orderIdPatch d) (phonePeOrderId p),
       phonePeResponse := Some d, updatedAt := now\<rparr>"

definition applicationUpdate :: "int \<Rightarrow> gw_data \<Rightarrow> application \<Rightarrow> application" where
  "applicationUpdate now d a =
     a\<lparr>paymentStatus := (if localStatus (gw_state d) = ''completed'' then ''completed'' else ''pending''),
       paymentOrderId :=
         apply_patch (if gw_state d = Some ''COMPLETED'' then orderIdPatch d else SetNull)
           (paymentOrderId a),
       app_status := applicationStatus (gw_state d), app_updatedAt := now\<rparr>"

text \<open>The handler from the \<^verbatim>\<open>switch\<close> on: both writes, the notification, the answer.\<close>

definition reconcile :: "int \<Rightarrow> mailer \<Rightarrow> string \<Rightarrow> payment \<Rightarrow> gw_data \<Rightarrow> store \<Rightarrow> response \<times> store" where
  "reconcile now mail mo localPayment d st =
     (let (updatedPayment, ps) =
            findOneAndUpdate (\<lambda>p. merchantOrderId p = mo) (paymentUpdate now d) (payments st);
          (application, as) =
            findOneAndUpdate (\<lambda>a. app_applicationId a = applicationId localPayment)
              (applicationUpdate now d) (applications st);
          log = (case application of
                   Some a \<Rightarrow>
                     if shouldSendEmail (gw_state d) localPayment \<and> gw_state d = Some ''COMPLETED''
                     then snd (sendConfirmationEmail mail a (gw_orderId d) (outbox st))
                     else outbox st
                 | None \<Rightarrow> outbox st);
          st' = st\<lparr>payments := ps, applications := as, outbox := log\<rparr>
      in (case updatedPayment of
            Some u \<Rightarrow>
              ((200, StatusOk d (applicationId u) (status u) (createdAt u) (updatedAt u)), st')
          | None \<Rightarrow> ((500, Message ''Payment status check failed''), st')))"

text \<open>
  The handler of \<^verbatim>\<open>GET /api/payment/status/:merchantOrderId\<close>. \<open>statusReply\<close> is
  the gateway's answer to the status query; a reply without a body makes
  \<^verbatim>\<open>response.data.state\<close> throw.
\<close>

definition statusHandler ::
  "int \<Rightarrow> exn + token_data option \<Rightarrow> exn + gw_data option \<Rightarrow> mailer \<Rightarrow> string \<Rightarrow> store
     \<Rightarrow> response \<times> store" where
  "statusHandler now tokenReply statusReply mail mo st =
     (if mo = [] then ((400, Message ''Order ID is required''), st)
      else
        (case find (\<lambda>p. merchantOrderId p = mo) (payments st) of
           None \<Rightarrow> ((404, Message ''Payment record not found''), st)
         | Some localPayment \<Rightarrow>
             (case generateAuthToken now tokenReply (tokenCache st) of
                (Inl e, c) \<Rightarrow>
                  ((500, Message (errorMessage ''Payment status check failed'' e)),
                   st\<lparr>tokenCache := c\<rparr>)
              | (Inr authToken, c) \<Rightarrow>
                  (case statusReply of
                     Inl e \<Rightarrow>
                       ((500, Message (errorMessage ''Payment status check failed'' e)),
                        st\<lparr>tokenCache := c\<rparr>)
                   | Inr None \<Rightarrow>
                       ((500, Message ''Payment status check failed''), st\<lparr>tokenCache := c\<rparr>)
                   | Inr (Some d) \<Rightarrow>
                       reconcile now mail mo localPayment d (st\<lparr>tokenCache := c\<rparr>)))))"

section \<open>Runs of requests and what a request meets\<close>

text \<open>Initiation requests handled one after the other, each with its own clock reading
  and gateway answers.\<close>

record attempt =
  at_now :: int
  at_tokenReply :: "exn + token_data option"
  at_orderReply :: "exn + gw_data option"
  at_body :: initiation

fun initiations :: "attempt list \<Rightarrow> store \<Rightarrow> store" where
  "initiations [] st = st"
| "initiations (q # qs) st =
     initiations qs (snd (initiate (at_now q) (at_tokenReply q) (at_orderReply q) (at_body q) st))"

text \<open>Status polls of one merchant order id handled one after the other.\<close>

record poll =
  poll_now :: int
  poll_tokenReply :: "exn + token_data option"
  poll_statusReply :: "exn + gw_data option"
  poll_mail :: mailer

fun polls :: "poll list \<Rightarrow> string \<Rightarrow> store \<Rightarrow> store" where
  "polls [] mo st = st"
| "polls (q # qs) mo st =
     polls qs mo
       (snd (statusHandler (poll_now q) (poll_tokenReply q) (poll_statusReply q) (poll_mail q) mo st))"

text \<open>The gateway answers a poll with the state COMPLETED; and: it answers with
  COMPLETED or with no state at all (the call fails, or the reply has no body).\<close>

definition reportsCompleted :: "poll \<Rightarrow> bool" where
  "reportsCompleted q =
     (case poll_statusReply q of
        Inr (Some d) \<Rightarrow> gw_state d = Some ''COMPLETED'' | _ \<Rightarrow> False)"

definition completedOrSilent :: "poll \<Rightarrow> bool" where
  "completedOrSilent q =
     (case poll_statusReply q of
        Inr (Some d) \<Rightarrow> gw_state d = Some ''COMPLETED'' | _ \<Rightarrow> True)"

text \<open>A run in which the gateway does not take COMPLETED back: after the first poll
  that it answers with COMPLETED, it answers with COMPLETED or not at all.\<close>

fun settled :: "poll list \<Rightarrow> bool" where
  "settled [] = True"
| "settled (q # qs) = (if reportsCompleted q then list_all completedOrSilent qs else settled qs)"

text \<open>The token exchange succeeds: from the cache, or with the gateway's answer.\<close>

definition tokenGranted :: "int \<Rightarrow> exn + token_data option \<Rightarrow> store \<Rightarrow> bool" where
  "tokenGranted now tokenReply st =
     (case fst (generateAuthToken now tokenReply (tokenCache st)) of
        Inr t \<Rightarrow> True | Inl e \<Rightarrow> False)"

text \<open>A status request gets as far as the gateway's state: the order is known locally
  (\<open>localPayment\<close> is its record), a token is obtained, and the gateway's reply has a
  body \<open>d\<close>.\<close>

definition reaches ::
  "int \<Rightarrow> exn + token_data option \<Rightarrow> exn + gw_data option \<Rightarrow> string \<Rightarrow> store
     \<Rightarrow> payment \<Rightarrow> gw_data \<Rightarrow> bool" where
  "reaches now tokenReply statusReply mo st localPayment d =
     (mo \<noteq> [] \<and> find (\<lambda>p. merchantOrderId p = mo) (payments st) = Some localPayment
      \<and> tokenGranted now tokenReply st \<and> statusReply = Inr (Some d))"

text \<open>The gateway's answer to order creation is complete: a body with a redirect URL
  and an order id.\<close>

definition complete :: "exn + gw_data option \<Rightarrow> bool" where
  "complete orderReply =
     (case orderReply of
        Inr (Some d) \<Rightarrow> truthy (gw_redirectUrl d) \<and> truthy (gw_orderId d) | _ \<Rightarrow> False)"

text \<open>An initiation request gets through at the store it meets: it passes the four
  gates (fields, amount, unused merchant order id, no recent completed payment of the
  application), a token is obtained, and the gateway's reply is complete.\<close>

definition getsThrough :: "attempt \<Rightarrow> store \<Rightarrow> bool" where
  "getsThrough q st =
     (case (req_applicationId (sanitizeInitiation (at_body q)),
            req_merchantOrderId (sanitizeInitiation (at_body q))) of
        (Some appId, Some mo) \<Rightarrow>
          \<not> missingFields (sanitizeInitiation (at_body q))
          \<and> req_amount (sanitizeInitiation (at_body q)) = Some 99
          \<and> find (\<lambda>p. merchantOrderId p = mo) (payments st) = None
          \<and> checkDuplicatePayment appId 30 (at_now q) (payments st) = None
          \<and> tokenGranted (at_now q) (at_tokenReply q) st \<and> complete (at_orderReply q)
      | _ \<Rightarrow> False)"

section \<open>Sample data\<close>

text \<open>A well-formed submission, with the pincode left open, and the empty store of a
  fresh deployment.\<close>

definition sample :: "string \<Rightarrow> submission" where
  "sample pin =
     \<lparr>name = Some ''Asha Rao'', email = Some ''a@b.com'', phone = Some ''9876543210'',
      dob = Some ''2005-06-15'', gender = Some ''Female'', category = Some ''Engineering'',
      school = Some ''Test College'', state = Some ''Maharashtra'', district = Some ''Pune'',
      pincode = Some pin, address = Some ''1 Main Road'', income_amount = Some 150000,
      income_band = Some ''Below 1,00,000'', achievements = Some ''Science fair'',
      recommendation = Some ''Principal'',
      sop = Some ''I need this scholarship to continue my engineering studies.''\<rparr>"

definition store0 :: store where
  "store0 = \<lparr>applications = [], payments = [], tokenCache = tokenCache_init, outbox = []\<rparr>"

text \<open>The application that the sample submission creates, and the store that holds it.\<close>

definition app1 :: application where
  "app1 = newApplication ''NF202517000000000007'' ''a@b.com'' ''9876543210''
            (sample ''411001'') 1700000000000"

definition store1 :: store where
  "store1 = store0\<lparr>applications := [app1]\<rparr>"

text \<open>A payment request of the sample applicant for the merchant order id \<open>mo\<close>, and
  gateway answers: a token valid for an hour, an accepted order, a status report.\<close>

definition pay_req :: "string \<Rightarrow> initiation" where
  "pay_req mo =
     \<lparr>req_applicationId = Some ''NF202517000000000007'', req_amount = Some 99,
      req_name = Some ''Asha Rao'', req_email = Some ''a@b.com'',
      req_phone = Some ''9876543210'', req_merchantOrderId = Some mo\<rparr>"

definition token_ok :: "exn + token_data option" where
  "token_ok = Inr (Some \<lparr>access_token = Some ''tok'', expires_at = Some 1700003660\<rparr>)"

definition order_data :: "string \<Rightarrow> gw_data" where
  "order_data oid =
     \<lparr>gw_state = Some ''PENDING'', gw_orderId = Some oid,
      gw_redirectUrl = Some ''https://mercury.phonepe.com/transact'',
      gw_expireAt = Some 1700001860000\<rparr>"

definition status_data :: "string \<Rightarrow> gw_data" where
  "status_data s =
     \<lparr>gw_state = Some s, gw_orderId = Some ''OMO1'', gw_redirectUrl = None, gw_expireAt = None\<rparr>"

text \<open>The store after the sample applicant initiated the payment MO_1 one minute after
  submitting, and the store after a poll at time \<open>t\<close> then found the order COMPLETED.\<close>

definition pay1 :: payment where
  "pay1 = newPayment ''NF202517000000000007'' ''MO_1'' 99 (order_data ''OMO1'') 1700000060000"

definition store2 :: store where
  "store2 = store1\<lparr>payments := [pay1],
              tokenCache := \<lparr>token = Some ''tok'', expiresAt = Some 1700003660000\<rparr>\<rparr>"

definition store3 :: "int \<Rightarrow> store" where
  "store3 t =
     store2\<lparr>payments := [paymentUpdate t (status_data ''COMPLETED'') pay1],
            applications := [applicationUpdate t (status_data ''COMPLETED'') app1],
            outbox := [\<lparr>note_applicationId = ''NF202517000000000007'', note_to = ''a@b.com'',
                        note_orderId = Some ''OMO1'', note_sent = True\<rparr>]\<rparr>"

text \<open>An initiation request of the sample applicant for MO_1 at time \<open>t\<close> that the
  gateway answers with \<open>orderReply\<close>; the gateway's refusal of an order.\<close>

definition try_at :: "int \<Rightarrow> exn + gw_data option \<Rightarrow> attempt" where
  "try_at t orderReply =
     \<lparr>at_now = t, at_tokenReply = token_ok, at_orderReply = orderReply,
      at_body = pay_req ''MO_1''\<rparr>"

definition gateway_down :: "exn + gw_data option" where
  "gateway_down = Inl (AxiosError (Some ''Service unavailable'') None)"

text \<open>The sample submission with another email, phone and gender.\<close>

definition sample_with :: "string \<Rightarrow> string \<Rightarrow> string \<Rightarrow> submission" where
  "sample_with e p g = (sample ''411001'')\<lparr>email := Some e, phone := Some p, gender := Some g\<rparr>"

text \<open>A status report COMPLETED that carries no order id.\<close>

definition completed_bare :: gw_data where
  "completed_bare =
     \<lparr>gw_state = Some ''COMPLETED'', gw_orderId = None, gw_redirectUrl = None, gw_expireAt = None\<rparr>"

text \<open>A poll at time \<open>t\<close> that the gateway answers with the state \<open>s\<close>.\<close>

definition poll_at :: "int \<Rightarrow> string \<Rightarrow> poll" where
  "poll_at t s =
     \<lparr>poll_now = t, poll_tokenReply = token_ok,
      poll_statusReply = Inr (Some (status_data s)), poll_mail = Accepted\<rparr>"

text \<open>The store with the payment MO_1 when the application id that the client sent
  with it names no stored application, and when the application has been rejected.\<close>

definition store2_orphan :: store where
  "store2_orphan = store2\<lparr>applications := []\<rparr>"

definition store2_rejected :: store where
  "store2_rejected = store2\<lparr>applications := [app1\<lparr>app_status := ''rejected''\<rparr>]\<rparr>"

section \<open>Properties of the credential cache\<close>

text \<open>
  C9. A call of the token operation with a non-empty cached token, at a time more than
  60 seconds before the recorded expiry, returns the cached token whatever the gateway
  would have answered and leaves the cache as it is. Any other call performs the
  exchange: when the reply carries a token, the token and its expiry (seconds turned
  into milliseconds) are stored and the token is returned; when the exchange fails, the
  cache is cleared and the call fails.
\<close>

theorem generateAuthToken_contract:
  "(token c1 = Some t1 \<and> t1 \<noteq> [] \<and> expiresAt c1 = Some e1 \<and> now1 < e1 - 60000
      \<longrightarrow> generateAuthToken now1 reply1 c1 = (Inr t1, c1))
   \<and> (\<not> cache_hit now2 c2 \<and> exchanged reply2 d2 t2
      \<longrightarrow> generateAuthToken now2 reply2 c2 =
            (Inr t2, \<lparr>token = Some t2, expiresAt = map_option (\<lambda>s. s * 1000) (expires_at d2)\<rparr>))
   \<and> (\<not> cache_hit now3 c3 \<and> exchange_failed reply3
      \<longrightarrow> (\<exists>e. fst (generateAuthToken now3 reply3 c3) = Inl e)
          \<and> snd (generateAuthToken now3 reply3 c3) = \<lparr>token = None, expiresAt = Some 0\<rparr>)"
  by (auto simp: generateAuthToken_def cache_hit_def truthy_def exchanged_def exchange_failed_def
           split: option.splits sum.splits)

theorem generateAuthToken_contract_witness:
  "generateAuthToken 1000 (Inl PlainError) \<lparr>token = Some ''tok'', expiresAt = Some 100000\<rparr>
     = (Inr ''tok'', \<lparr>token = Some ''tok'', expiresAt = Some 100000\<rparr>)
   \<and> generateAuthToken 50000 (Inr (Some \<lparr>access_token = Some ''new'', expires_at = Some 700\<rparr>))
        \<lparr>token = Some ''tok'', expiresAt = Some 100000\<rparr>
     = (Inr ''new'', \<lparr>token = Some ''new'', expiresAt = Some 700000\<rparr>)
   \<and> snd (generateAuthToken 50000 (Inl (AxiosError None None))
        \<lparr>token = Some ''tok'', expiresAt = Some 100000\<rparr>)
     = \<lparr>token = None, expiresAt = Some 0\<rparr>"
  using generateAuthToken_contract
    [of "\<lparr>token = Some ''tok'', expiresAt = Some 100000\<rparr>" "''tok''" 100000 1000 "Inl PlainError"
        50000 "\<lparr>token = Some ''tok'', expiresAt = Some 100000\<rparr>"
        "Inr (Some \<lparr>access_token = Some ''new'', expires_at = Some 700\<rparr>)"
        "\<lparr>access_token = Some ''new'', expires_at = Some 700\<rparr>" "''new''"
        50000 "\<lparr>token = Some ''tok'', expiresAt = Some 100000\<rparr>" "Inl (AxiosError None None)"]
  by (simp add: cache_hit_def truthy_def exchanged_def exchange_failed_def)

section \<open>Properties of the intake handler\<close>

lemma trim_id: "s \<noteq> [] \<Longrightarrow> \<not> isSpace (hd s) \<Longrightarrow> \<not> isSpace (last s) \<Longrightarrow> trim s = s"
proof -
  assume a: "s \<noteq> []" "\<not> isSpace (hd s)" "\<not> isSpace (last s)"
  then have lead: "dropWhile isSpace s = s"
    by (simp add: dropWhile_eq_self_iff)
  from a have trail: "dropWhile isSpace (rev s) = rev s"
    by (simp add: dropWhile_eq_self_iff hd_rev)
  show ?thesis
    by (simp add: trim_def lead trail)
qed

lemma blank_sanitizeField: "blank v \<Longrightarrow> sanitizeField v = None"
  by (auto simp: blank_def sanitizeField_def split: option.splits)

lemma blank_None: "blank None"
  by (simp add: blank_def)

lemma find_Some_ex: "P a \<Longrightarrow> a \<in> set xs \<Longrightarrow> \<exists>b. find P xs = Some b"
  by (induction xs) auto

lemma find_None_all: "find P xs = None \<longleftrightarrow> (\<forall>a \<in> set xs. \<not> P a)"
  by (induction xs) auto

lemma san_sample:
  "sanitizeInput (sample ''12'') = sample ''12''"
  "sanitizeInput (sample ''411001'') = sample ''411001''"
  by (simp_all add: sanitizeInput_def sample_def sanitizeField_def trim_id isSpace_def)

lemma val_sample:
  "validateApplicationData (\<lambda>_. True) (sample ''12'') = []"
  "validateApplicationData (\<lambda>_. True) (sample ''411001'') = []"
  by (simp_all add: validateApplicationData_def sample_def push_if_def blank_def truthy_def
        trim_id isSpace_def validatePhoneNumber_def isDigit_def)

lemma schema_sample: "schemaAccepts (\<lambda>_. True) (sample pin)"
  by (simp add: schemaAccepts_def sample_def)

lemma contact_sample:
  "email (sample pin) = Some ''a@b.com''" "phone (sample pin) = Some ''9876543210''"
  by (simp_all add: sample_def)

lemma newApplicationId_sample: "newApplicationId 1700000000000 7 = ''NF202517000000000007''"
  by (simp add: newApplicationId_def show_int_def dec.simps)



text \<open>What the validation does list: a blank required field, an email that
  \<^verbatim>\<open>validator.isEmail\<close> refuses, a phone number outside the pattern, a statement of
  fewer than 50 characters. Any violation makes the handler answer 400 with the whole
  list and store nothing.\<close>

lemma submit_invalid:
  "validateApplicationData isEmail (sanitizeInput raw) \<noteq> [] \<Longrightarrow>
     submit isEmail validDate now r raw st =
       ((400, ValidationFailed (validateApplicationData isEmail (sanitizeInput raw))), st)"
  by (simp add: submit_def submitHandler_def)

lemma dropWhile_rev_stable:
  "xs = [] \<or> \<not> P (hd xs) \<Longrightarrow>
     dropWhile P (rev (dropWhile P (rev xs))) = rev (dropWhile P (rev xs))"
  by (cases xs) (simp_all add: dropWhile_append3)

lemma trim_trim: "trim (trim s) = trim s"
proof -
  have "dropWhile isSpace s = [] \<or> \<not> isSpace (hd (dropWhile isSpace s))"
    using hd_dropWhile [of isSpace s] by blast
  then have "dropWhile isSpace (trim s) = trim s"
    unfolding trim_def by (rule dropWhile_rev_stable)
  then show ?thesis
    by (simp add: trim_def)
qed

lemma sanitizeField_Some: "sanitizeField v = Some x \<Longrightarrow> x \<noteq> [] \<and> trim x = x"
  by (auto simp: sanitizeField_def trim_trim split: option.splits if_splits)

lemma validation_lists:
  "blank (name raw) \<Longrightarrow>
     ''Name is required'' \<in> set (validateApplicationData isEmail (sanitizeInput raw))"
  "blank (pincode raw) \<Longrightarrow>
     ''Pincode is required'' \<in> set (validateApplicationData isEmail (sanitizeInput raw))"
  "email (sanitizeInput raw) = Some e \<Longrightarrow> \<not> isEmail e \<Longrightarrow>
     ''Invalid email format'' \<in> set (validateApplicationData isEmail (sanitizeInput raw))"
  "phone (sanitizeInput raw) = Some p \<Longrightarrow> \<not> validatePhoneNumber p \<Longrightarrow>
     ''Invalid Indian phone number'' \<in> set (validateApplicationData isEmail (sanitizeInput raw))"
  "sop (sanitizeInput raw) = Some s \<Longrightarrow> length s < 50 \<Longrightarrow>
     ''Statement of purpose must be at least 50 characters''
       \<in> set (validateApplicationData isEmail (sanitizeInput raw))"
proof -
  show "blank (name raw) \<Longrightarrow>
     ''Name is required'' \<in> set (validateApplicationData isEmail (sanitizeInput raw))"
    by (simp add: validateApplicationData_def sanitizeInput_def blank_sanitizeField push_if_def
          blank_None)
  show "blank (pincode raw) \<Longrightarrow>
     ''Pincode is required'' \<in> set (validateApplicationData isEmail (sanitizeInput raw))"
    by (simp add: validateApplicationData_def sanitizeInput_def blank_sanitizeField push_if_def
          blank_None)
  show "email (sanitizeInput raw) = Some e \<Longrightarrow> \<not> isEmail e \<Longrightarrow>
     ''Invalid email format'' \<in> set (validateApplicationData isEmail (sanitizeInput raw))"
    using sanitizeField_Some [of "email raw" e]
    by (simp add: validateApplicationData_def sanitizeInput_def push_if_def)
  show "phone (sanitizeInput raw) = Some p \<Longrightarrow> \<not> validatePhoneNumber p \<Longrightarrow>
     ''Invalid Indian phone number'' \<in> set (validateApplicationData isEmail (sanitizeInput raw))"
    using sanitizeField_Some [of "phone raw" p]
    by (simp add: validateApplicationData_def sanitizeInput_def push_if_def)
  show "sop (sanitizeInput raw) = Some s \<Longrightarrow> length s < 50 \<Longrightarrow>
     ''Statement of purpose must be at least 50 characters''
       \<in> set (validateApplicationData isEmail (sanitizeInput raw))"
    using sanitizeField_Some [of "sop raw" s]
    by (simp add: validateApplicationData_def sanitizeInput_def push_if_def)
qed

text \<open>
  C8. The server's validation looks at the pincode only to see that it is not blank:
  the sample submission with the two-digit pincode "12" passes it and is stored. (The
  form script of the same repository, \<^verbatim>\<open>validateFormData\<close> in \<^verbatim>\<open>script.js\<close>,
  refuses a pincode that does not match \<^verbatim>\<open>/^\d{6}$/\<close>.)
\<close>

theorem short_pincode_accepted:
  "submit (\<lambda>_. True) (\<lambda>_. True) 1700000000000 7 (sample ''12'') store0 =
     ((201, SubmitOk ''NF202517000000000007'' 1700000000000),
      store0\<lparr>applications :=
        [newApplication ''NF202517000000000007'' ''a@b.com'' ''9876543210'' (sample ''12'')
           1700000000000]\<rparr>)"
  by (simp add: submit_def submitHandler_def san_sample val_sample schema_sample contact_sample
        newApplicationId_sample store0_def)

lemma submit_conflict:
  assumes "validateApplicationData isEmail (sanitizeInput raw) = []"
    and "a \<in> set (applications st)" and "sameContact (sanitizeInput raw) a"
  shows "submit isEmail validDate now r raw st =
    ((409, Message ''Application already exists with this email or phone number''), st)"
proof -
  from assms(2,3) obtain b where "find (sameContact (sanitizeInput raw)) (applications st) = Some b"
    using find_Some_ex [of "sameContact (sanitizeInput raw)" a "applications st"] by auto
  with assms(1) show ?thesis
    by (simp add: submit_def submitHandler_def)
qed

lemma push_if_Nil: "push_if c msg = [] \<longleftrightarrow> \<not> c"
  by (simp add: push_if_def)

lemma valid_email_phone:
  assumes "validateApplicationData isEmail b = []"
  shows "\<exists>e p. email b = Some e \<and> phone b = Some p"
proof -
  from assms have "\<not> blank (email b)" "\<not> blank (phone b)"
    by (simp_all add: validateApplicationData_def push_if_Nil)
  then show ?thesis
    by (cases "email b"; cases "phone b") (simp_all add: blank_def)
qed

lemma submit_created:
  assumes v: "validateApplicationData isEmail (sanitizeInput raw) = []"
    and fresh: "\<forall>a \<in> set (applications st). \<not> sameContact (sanitizeInput raw) a"
    and sch: "schemaAccepts validDate (sanitizeInput raw)"
    and uid: "newApplicationId now r \<notin> set (map app_applicationId (applications st))"
    and ep: "email (sanitizeInput raw) = Some e" "phone (sanitizeInput raw) = Some p"
  shows "submit isEmail validDate now r raw st =
           ((201, SubmitOk (newApplicationId now r) now),
            st\<lparr>applications := applications st @
               [newApplication (newApplicationId now r) e p (sanitizeInput raw) now]\<rparr>)"
proof -
  from fresh have "find (sameContact (sanitizeInput raw)) (applications st) = None"
    by (simp add: find_None_all)
  with v ep sch uid show ?thesis
    by (simp add: submit_def submitHandler_def)
qed

lemma submit_save_fails:
  assumes v: "validateApplicationData isEmail (sanitizeInput raw) = []"
    and fresh: "\<forall>a \<in> set (applications st). \<not> sameContact (sanitizeInput raw) a"
    and bad: "\<not> schemaAccepts validDate (sanitizeInput raw)
              \<or> newApplicationId now r \<in> set (map app_applicationId (applications st))"
  shows "submit isEmail validDate now r raw st =
           ((500, Message ''Application submission failed''), st)"
proof -
  from fresh have "find (sameContact (sanitizeInput raw)) (applications st) = None"
    by (simp add: find_None_all)
  with v bad show ?thesis
    by (auto simp: submit_def submitHandler_def split: option.splits)
qed

lemma san_sample_with:
  "sanitizeInput (sample_with ''c@d.org'' ''9123456780'' ''Female'')
     = sample_with ''c@d.org'' ''9123456780'' ''Female''"
  "sanitizeInput (sample_with ''c@d.org'' ''9876543210'' ''Female'')
     = sample_with ''c@d.org'' ''9876543210'' ''Female''"
  "sanitizeInput (sample_with ''a@b.com'' ''9123456780'' ''Female'')
     = sample_with ''a@b.com'' ''9123456780'' ''Female''"
  "sanitizeInput (sample_with ''a@b.com'' ''9876543210'' ''male'')
     = sample_with ''a@b.com'' ''9876543210'' ''male''"
  by (simp_all add: sanitizeInput_def sample_with_def sample_def sanitizeField_def trim_id
        isSpace_def)

lemma val_sample_with:
  "validateApplicationData (\<lambda>_. True) (sample_with ''c@d.org'' ''9123456780'' ''Female'') = []"
  "validateApplicationData (\<lambda>_. True) (sample_with ''c@d.org'' ''9876543210'' ''Female'') = []"
  "validateApplicationData (\<lambda>_. True) (sample_with ''a@b.com'' ''9123456780'' ''Female'') = []"
  "validateApplicationData (\<lambda>_. True) (sample_with ''a@b.com'' ''9876543210'' ''male'') = []"
  by (simp_all add: validateApplicationData_def sample_with_def sample_def push_if_def blank_def
        truthy_def trim_id isSpace_def validatePhoneNumber_def isDigit_def)

lemma sample_with_fields:
  "email (sample_with e p g) = Some e" "phone (sample_with e p g) = Some p"
  "schemaAccepts (\<lambda>_. True) (sample_with e p g) \<longleftrightarrow> g \<in> set [''Male'', ''Female'', ''Other'']"
  by (simp_all add: sample_with_def sample_def schemaAccepts_def)

lemma store1_applications:
  "applications store1 = [app1]" "applications store0 = []"
  "app_email app1 = ''a@b.com''" "app_phone app1 = ''9876543210''"
  "app_applicationId app1 = ''NF202517000000000007''"
  by (simp_all add: store1_def store0_def app1_def newApplication_def)

text \<open>
  C7, as the code has it. A submission that passes validation and whose trimmed email
  or phone equals that of a stored application is answered 409 and nothing is stored.
  A submission that passes validation and matches no stored application in email or
  phone is answered 201 when the document is accepted on save (the gender is one of
  the schema's values and the date of birth is a date) and the generated identifier is
  not taken: exactly one application, carrying the generated identifier, is appended,
  and the same submission sent again is answered 409 and stores nothing. When the
  document is refused on save or the identifier is taken, the answer is 500 and
  nothing is stored.
\<close>

theorem submit_duplicate_guard:
  "(validateApplicationData isEmail1 (sanitizeInput raw1) = [] \<and> a1 \<in> set (applications st1)
      \<and> sameContact (sanitizeInput raw1) a1
      \<longrightarrow> submit isEmail1 validDate1 now1 r1 raw1 st1 =
            ((409, Message ''Application already exists with this email or phone number''), st1))
   \<and> (validateApplicationData isEmail2 (sanitizeInput raw2) = []
      \<and> (\<forall>a \<in> set (applications st2). \<not> sameContact (sanitizeInput raw2) a)
      \<and> schemaAccepts validDate2 (sanitizeInput raw2)
      \<and> newApplicationId now2 r2 \<notin> set (map app_applicationId (applications st2))
      \<longrightarrow> (\<exists>e p st'.
              submit isEmail2 validDate2 now2 r2 raw2 st2 =
                ((201, SubmitOk (newApplicationId now2 r2) now2), st')
            \<and> st' = st2\<lparr>applications := applications st2 @
                       [newApplication (newApplicationId now2 r2) e p (sanitizeInput raw2) now2]\<rparr>
            \<and> email (sanitizeInput raw2) = Some e \<and> phone (sanitizeInput raw2) = Some p
            \<and> submit isEmail2 validDate2 now3 r3 raw2 st' =
                ((409, Message ''Application already exists with this email or phone number''), st')))
   \<and> (validateApplicationData isEmail4 (sanitizeInput raw4) = []
      \<and> (\<forall>a \<in> set (applications st4). \<not> sameContact (sanitizeInput raw4) a)
      \<and> (\<not> schemaAccepts validDate4 (sanitizeInput raw4)
           \<or> newApplicationId now4 r4 \<in> set (map app_applicationId (applications st4)))
      \<longrightarrow> submit isEmail4 validDate4 now4 r4 raw4 st4 =
            ((500, Message ''Application submission failed''), st4))"
proof (intro conjI impI)
  assume "validateApplicationData isEmail1 (sanitizeInput raw1) = [] \<and> a1 \<in> set (applications st1)
      \<and> sameContact (sanitizeInput raw1) a1"
  then show "submit isEmail1 validDate1 now1 r1 raw1 st1 =
      ((409, Message ''Application already exists with this email or phone number''), st1)"
    by (simp add: submit_conflict [of _ _ a1])
next
  assume "validateApplicationData isEmail4 (sanitizeInput raw4) = []
      \<and> (\<forall>a \<in> set (applications st4). \<not> sameContact (sanitizeInput raw4) a)
      \<and> (\<not> schemaAccepts validDate4 (sanitizeInput raw4)
           \<or> newApplicationId now4 r4 \<in> set (map app_applicationId (applications st4)))"
  then show "submit isEmail4 validDate4 now4 r4 raw4 st4 =
            ((500, Message ''Application submission failed''), st4)"
    by (intro submit_save_fails) simp_all
next
  assume h: "validateApplicationData isEmail2 (sanitizeInput raw2) = []
      \<and> (\<forall>a \<in> set (applications st2). \<not> sameContact (sanitizeInput raw2) a)
      \<and> schemaAccepts validDate2 (sanitizeInput raw2)
      \<and> newApplicationId now2 r2 \<notin> set (map app_applicationId (applications st2))"
  then obtain e p where ep: "email (sanitizeInput raw2) = Some e" "phone (sanitizeInput raw2) = Some p"
    using valid_email_phone by blast
  define a' where "a' = newApplication (newApplicationId now2 r2) e p (sanitizeInput raw2) now2"
  define st' where "st' = st2\<lparr>applications := applications st2 @ [a']\<rparr>"
  have first: "submit isEmail2 validDate2 now2 r2 raw2 st2 =
      ((201, SubmitOk (newApplicationId now2 r2) now2), st')"
    using h ep by (simp add: submit_created st'_def a'_def)
  have "a' \<in> set (applications st')" "sameContact (sanitizeInput raw2) a'"
    using ep by (simp_all add: st'_def a'_def sameContact_def newApplication_def)
  with h have again: "submit isEmail2 validDate2 now3 r3 raw2 st' =
      ((409, Message ''Application already exists with this email or phone number''), st')"
    by (simp add: submit_conflict [of _ _ a'])
  show "\<exists>e p st'.
      submit isEmail2 validDate2 now2 r2 raw2 st2 =
        ((201, SubmitOk (newApplicationId now2 r2) now2), st')
      \<and> st' = st2\<lparr>applications := applications st2 @
                 [newApplication (newApplicationId now2 r2) e p (sanitizeInput raw2) now2]\<rparr>
      \<and> email (sanitizeInput raw2) = Some e \<and> phone (sanitizeInput raw2) = Some p
      \<and> submit isEmail2 validDate2 now3 r3 raw2 st' =
          ((409, Message ''Application already exists with this email or phone number''), st')"
    using first again ep unfolding st'_def a'_def by blast
qed

text \<open>The witness: a stored phone alone and a stored email alone are each answered
  409; the first submission of the sample is answered 201 and its repetition 409; the
  sample with the gender written "male" is answered 500.\<close>

theorem submit_duplicate_guard_witness:
  "submit (\<lambda>_. True) (\<lambda>_. True) 1700000300000 8
       (sample_with ''c@d.org'' ''9876543210'' ''Female'') store1 =
     ((409, Message ''Application already exists with this email or phone number''), store1)
   \<and> submit (\<lambda>_. True) (\<lambda>_. True) 1700000300000 8
       (sample_with ''a@b.com'' ''9123456780'' ''Female'') store1 =
     ((409, Message ''Application already exists with this email or phone number''), store1)
   \<and> submit (\<lambda>_. True) (\<lambda>_. True) 1700000000000 7 (sample ''411001'') store0 =
       ((201, SubmitOk ''NF202517000000000007'' 1700000000000), store1)
   \<and> submit (\<lambda>_. True) (\<lambda>_. True) 1700000300000 8 (sample ''411001'') store1 =
     ((409, Message ''Application already exists with this email or phone number''), store1)
   \<and> submit (\<lambda>_. True) (\<lambda>_. True) 1700000000000 7
       (sample_with ''a@b.com'' ''9876543210'' ''male'') store0 =
     ((500, Message ''Application submission failed''), store0)"
proof -
  from submit_duplicate_guard
    [of "\<lambda>_. True" "sample_with ''c@d.org'' ''9876543210'' ''Female''" app1 store1
        "\<lambda>_. True" 1700000300000 8]
  have phone_only: "submit (\<lambda>_. True) (\<lambda>_. True) 1700000300000 8
       (sample_with ''c@d.org'' ''9876543210'' ''Female'') store1 =
     ((409, Message ''Application already exists with this email or phone number''), store1)"
    by (simp add: san_sample_with val_sample_with sample_with_fields store1_applications
          sameContact_def)
  from submit_duplicate_guard
    [of "\<lambda>_. True" "sample_with ''a@b.com'' ''9123456780'' ''Female''" app1 store1
        "\<lambda>_. True" 1700000300000 8]
  have email_only: "submit (\<lambda>_. True) (\<lambda>_. True) 1700000300000 8
       (sample_with ''a@b.com'' ''9123456780'' ''Female'') store1 =
     ((409, Message ''Application already exists with this email or phone number''), store1)"
    by (simp add: san_sample_with val_sample_with sample_with_fields store1_applications
          sameContact_def)
  from submit_duplicate_guard
    [of "\<lambda>_. True" "sample ''411001''" app1 store1 "\<lambda>_. True" 1700000300000 8
        "\<lambda>_. True" "sample ''411001''" store0 "\<lambda>_. True" 1700000000000 7 1700000300000 8
        "\<lambda>_. True" "sample_with ''a@b.com'' ''9876543210'' ''male''" store0 "\<lambda>_. True"
        1700000000000 7]
  have rest: "submit (\<lambda>_. True) (\<lambda>_. True) 1700000000000 7 (sample ''411001'') store0 =
       ((201, SubmitOk ''NF202517000000000007'' 1700000000000), store1)
   \<and> submit (\<lambda>_. True) (\<lambda>_. True) 1700000300000 8 (sample ''411001'') store1 =
     ((409, Message ''Application already exists with this email or phone number''), store1)
   \<and> submit (\<lambda>_. True) (\<lambda>_. True) 1700000000000 7
       (sample_with ''a@b.com'' ''9876543210'' ''male'') store0 =
     ((500, Message ''Application submission failed''), store0)"
    by (auto simp: san_sample val_sample schema_sample contact_sample newApplicationId_sample
          san_sample_with val_sample_with sample_with_fields
          store0_def store1_def app1_def sameContact_def newApplication_def)
  from phone_only email_only rest show ?thesis
    by simp
qed

text \<open>
  The claim as worded fails. The store is empty, so the email and the phone of the
  sample are new; with the gender written "male" the submission passes validation, is
  refused on save and is answered 500. And a submission with a new email and a new
  phone that arrives in the millisecond of the stored application and draws the same
  random number generates the stored identifier and is answered 500.
\<close>

theorem submit_duplicate_counterexample:
  "applications store0 = []
   \<and> validateApplicationData (\<lambda>_. True)
        (sanitizeInput (sample_with ''a@b.com'' ''9876543210'' ''male'')) = []
   \<and> submit (\<lambda>_. True) (\<lambda>_. True) 1700000000000 7
        (sample_with ''a@b.com'' ''9876543210'' ''male'') store0
       = ((500, Message ''Application submission failed''), store0)
   \<and> map app_email (applications store1) = [''a@b.com'']
   \<and> map app_phone (applications store1) = [''9876543210'']
   \<and> validateApplicationData (\<lambda>_. True)
        (sanitizeInput (sample_with ''c@d.org'' ''9123456780'' ''Female'')) = []
   \<and> submit (\<lambda>_. True) (\<lambda>_. True) 1700000000000 7
        (sample_with ''c@d.org'' ''9123456780'' ''Female'') store1
       = ((500, Message ''Application submission failed''), store1)"
  by (simp add: submit_def submitHandler_def san_sample_with val_sample_with sample_with_fields
        store1_applications sameContact_def newApplicationId_sample)

section \<open>Properties of payment initiation\<close>

lemma find_Some_P: "find P xs = Some x \<Longrightarrow> P x \<and> x \<in> set xs"
  by (induction xs) (auto split: if_splits)

lemma initiateHandler_existing:
  assumes "\<not> missingFields b" "req_amount b = Some 99" "req_merchantOrderId b = Some mo"
    and "find (\<lambda>p. merchantOrderId p = mo) (payments st) = Some e"
  shows "initiateHandler now tr orr b st =
     ((409, ExistingPayment ''Payment already exists for this order ID'' (merchantOrderId e) (status e) (createdAt e)), st)"
proof -
  from assms(1) obtain appId where "req_applicationId b = Some appId"
    by (cases "req_applicationId b") (simp_all add: missingFields_def truthy_def)
  with assms show ?thesis
    by (simp add: initiateHandler_def)
qed

lemma createOrder_payments:
  "payments (snd (createOrder now orr appId mo amt st)) =
     (if complete orr \<and> mo \<notin> set (map merchantOrderId (payments st))
      then payments st @ [newPayment appId mo amt (case orr of Inr (Some d) \<Rightarrow> d) now]
      else payments st)"
  by (simp add: createOrder_def complete_def split: sum.splits option.splits)

lemma createOrder_frame:
  "applications (snd (createOrder now orr appId mo amt st)) = applications st"
  "outbox (snd (createOrder now orr appId mo amt st)) = outbox st"
  "tokenCache (snd (createOrder now orr appId mo amt st)) = tokenCache st"
  by (simp_all add: createOrder_def split: sum.splits option.splits)

lemma initiateHandler_step:
  "payments (snd (initiateHandler now tr orr b st)) = payments st
   \<or> (\<exists>p. payments (snd (initiateHandler now tr orr b st)) = payments st @ [p]
          \<and> req_merchantOrderId b = Some (merchantOrderId p) \<and> status p = ''initiated'')"
  by (auto simp: initiateHandler_def createOrder_payments newPayment_def
        split: option.splits sum.splits prod.splits)

lemma initiateHandler_taken:
  assumes "req_merchantOrderId b = Some mo" "mo \<in> set (map merchantOrderId (payments st))"
  shows "snd (initiateHandler now tr orr b st) = st"
proof -
  from assms(2) obtain e where "find (\<lambda>p. merchantOrderId p = mo) (payments st) = Some e"
    using find_None_all [of "\<lambda>p. merchantOrderId p = mo" "payments st"] by (cases "find (\<lambda>p. merchantOrderId p = mo) (payments st)") auto
  with assms(1) show ?thesis
    by (auto simp: initiateHandler_def split: option.splits)
qed

lemma initiations_taken:
  assumes "\<forall>q \<in> set qs. req_merchantOrderId (sanitizeInitiation (at_body q)) = Some mo"
    and "mo \<in> set (map merchantOrderId (payments st))"
  shows "initiations qs st = st"
  using assms
  by (induction qs arbitrary: st) (simp_all add: initiate_def initiateHandler_taken)

lemma initiations_at_most_one:
  assumes "\<forall>q \<in> set qs. req_merchantOrderId (sanitizeInitiation (at_body q)) = Some mo"
  shows "length (payments (initiations qs st)) \<le> length (payments st) + 1"
  using assms
proof (induction qs arbitrary: st)
  case Nil
  then show ?case by simp
next
  case (Cons q qs)
  let ?st = "snd (initiate (at_now q) (at_tokenReply q) (at_orderReply q) (at_body q) st)"
  from Cons.prems have mo: "req_merchantOrderId (sanitizeInitiation (at_body q)) = Some mo"
    and rest: "\<forall>q \<in> set qs. req_merchantOrderId (sanitizeInitiation (at_body q)) = Some mo"
    by simp_all
  from initiateHandler_step [of "at_now q" "at_tokenReply q" "at_orderReply q" "sanitizeInitiation (at_body q)" st]
  consider (same) "payments ?st = payments st"
    | (added) p where "payments ?st = payments st @ [p]" "merchantOrderId p = mo"
    using mo by (auto simp: initiate_def)
  then show ?case
  proof cases
    case same
    with Cons.IH [OF rest, of ?st] show ?thesis by simp
  next
    case added
    then have "mo \<in> set (map merchantOrderId (payments ?st))" by simp
    with rest have "initiations qs ?st = ?st" by (rule initiations_taken)
    with added show ?thesis by simp
  qed
qed

lemma sanitizeField_id: "s \<noteq> [] \<Longrightarrow> \<not> isSpace (hd s) \<Longrightarrow> \<not> isSpace (last s) \<Longrightarrow> sanitizeField (Some s) = Some s"
  by (simp add: sanitizeField_def trim_id)

lemma san_pay_req:
  "sanitizeInitiation (pay_req ''MO_1'') = pay_req ''MO_1''"
  "sanitizeInitiation (pay_req ''MO_2'') = pay_req ''MO_2''"
  by (simp_all add: sanitizeInitiation_def pay_req_def sanitizeField_id isSpace_def)

lemma pay_req_fields:
  "\<not> missingFields (pay_req ''MO_1'')" "\<not> missingFields (pay_req ''MO_2'')"
  "req_amount (pay_req mo) = Some 99" "req_applicationId (pay_req mo) = Some ''NF202517000000000007''"
  "req_merchantOrderId (pay_req mo) = Some mo"
  by (simp_all add: pay_req_def missingFields_def truthy_def)

lemma complete_order_ok: "complete (Inr (Some (order_data ''OMO1'')))" "complete (Inr (Some (order_data ''OMO2'')))"
  by (simp_all add: complete_def order_data_def truthy_def)

lemma token_fresh: "generateAuthToken t token_ok tokenCache_init = (Inr ''tok'', \<lparr>token = Some ''tok'', expiresAt = Some 1700003660000\<rparr>)"
  by (simp add: generateAuthToken_def tokenCache_init_def cache_hit_def truthy_def token_ok_def)

lemma token_cached: "t < 1700003600000 \<Longrightarrow> generateAuthToken t tr \<lparr>token = Some ''tok'', expiresAt = Some 1700003660000\<rparr> = (Inr ''tok'', \<lparr>token = Some ''tok'', expiresAt = Some 1700003660000\<rparr>)"
  by (simp add: generateAuthToken_def cache_hit_def truthy_def)

lemma initiate_store1:
  "initiate 1700000060000 token_ok (Inr (Some (order_data ''OMO1''))) (pay_req ''MO_1'') store1 =
     ((200, InitiateOk (Some ''OMO1'') (Some ''https://mercury.phonepe.com/transact'') (Some ''PENDING'') (Some 1700001860000)), store2)"
  by (simp add: initiate_def san_pay_req initiateHandler_def pay_req_fields)
     (simp add: store1_def store0_def token_fresh checkDuplicatePayment_def createOrder_def order_data_def truthy_def store2_def pay1_def)

lemma poll_store2:
  "t < 1700003600000 \<Longrightarrow>
   statusHandler t tr (Inr (Some (status_data ''COMPLETED''))) Accepted ''MO_1'' store2 =
     ((200, StatusOk (status_data ''COMPLETED'') ''NF202517000000000007'' ''completed'' 1700000060000 t), store3 t)"
  by (simp add: statusHandler_def store2_def store1_def store0_def pay1_def newPayment_def token_cached
        reconcile_def app1_def newApplication_def shouldSendEmail_def status_data_def
        sendConfirmationEmail_def store3_def paymentUpdate_def applicationUpdate_def localStatus_def applicationStatus_def)

lemma initiate_store3_late:
  "initiate 1700001980000 tr (Inr (Some (order_data ''OMO2''))) (pay_req ''MO_2'') (store3 1700001920000) =
     ((200, InitiateOk (Some ''OMO2'') (Some ''https://mercury.phonepe.com/transact'') (Some ''PENDING'') (Some 1700001860000)),
      (store3 1700001920000)\<lparr>payments := payments (store3 1700001920000) @ [newPayment ''NF202517000000000007'' ''MO_2'' 99 (order_data ''OMO2'') 1700001980000]\<rparr>)"
  by (simp add: initiate_def san_pay_req initiateHandler_def pay_req_fields)
     (simp add: store3_def store2_def token_cached pay1_def newPayment_def paymentUpdate_def checkDuplicatePayment_def
        createOrder_def order_data_def truthy_def localStatus_def status_data_def)

lemma initiateHandler_gated:
  assumes "\<not> missingFields b" "req_amount b = Some 99" "req_applicationId b = Some appId"
    "req_merchantOrderId b = Some mo" "find (\<lambda>p. merchantOrderId p = mo) (payments st) = None"
    "checkDuplicatePayment appId 30 now (payments st) = None"
  shows "initiateHandler now tr orr b st =
    (case generateAuthToken now tr (tokenCache st) of
       (Inl e, c) \<Rightarrow> ((500, Message (errorMessage ''Payment initiation failed'' e)), st\<lparr>tokenCache := c\<rparr>)
     | (Inr t, c) \<Rightarrow> createOrder now orr appId mo 99 (st\<lparr>tokenCache := c\<rparr>))"
  using assms by (simp add: initiateHandler_def)

lemma createOrder_code:
  "fst (fst (createOrder now orr appId mo amt st)) =
     (if complete orr \<and> mo \<notin> set (map merchantOrderId (payments st)) then 200 else 500)"
  by (simp add: createOrder_def complete_def split: sum.splits option.splits)

lemma find_None_notin: "find (\<lambda>p. merchantOrderId p = mo) ps = None \<Longrightarrow> mo \<notin> set (map merchantOrderId ps)"
  by (auto simp: find_None_all)

lemma gated_result:
  assumes "\<not> missingFields b" "req_amount b = Some 99" "req_applicationId b = Some appId"
    "req_merchantOrderId b = Some mo" "find (\<lambda>p. merchantOrderId p = mo) (payments st) = None"
    "checkDuplicatePayment appId 30 now (payments st) = None"
  shows "fst (fst (initiateHandler now tr orr b st)) = (if tokenGranted now tr st \<and> complete orr then 200 else 500)"
    and "payments (snd (initiateHandler now tr orr b st)) =
      (if tokenGranted now tr st \<and> complete orr
       then payments st @ [newPayment appId mo 99 (case orr of Inr (Some d) \<Rightarrow> d) now] else payments st)"
    and "applications (snd (initiateHandler now tr orr b st)) = applications st"
    and "outbox (snd (initiateHandler now tr orr b st)) = outbox st"
  using find_None_notin [OF assms(5)]
  by (auto simp: initiateHandler_gated [OF assms] tokenGranted_def createOrder_code createOrder_payments
      createOrder_frame split: prod.splits sum.splits)

text \<open>
  C3. Take an initiation request that passes the local gates: all fields present, the
  amount 99, no payment stored under its merchant order id, no recent completed payment
  of the application. If a token is obtained and the gateway's reply has both a
  redirect URL and an order id, the answer is 200 and one PaymentOrder with status
  "initiated" is appended. If the gateway call fails or the reply lacks either field,
  or if no token is obtained, the answer is 500 and no PaymentOrder is created. The
  payments change only when the reply is complete; applications and notifications are
  never touched (the token cache is process state and may have been refreshed).
\<close>

theorem initiate_persists_only_complete:
  "\<not> missingFields (sanitizeInitiation raw) \<and> req_amount (sanitizeInitiation raw) = Some 99
   \<and> req_applicationId (sanitizeInitiation raw) = Some appId
   \<and> req_merchantOrderId (sanitizeInitiation raw) = Some mo
   \<and> find (\<lambda>p. merchantOrderId p = mo) (payments st) = None
   \<and> checkDuplicatePayment appId 30 now (payments st) = None
   \<longrightarrow>
     (tokenGranted now tokenReply st \<and> orderReply = Inr (Some d)
        \<and> truthy (gw_redirectUrl d) \<and> truthy (gw_orderId d)
        \<longrightarrow> fst (fst (initiate now tokenReply orderReply raw st)) = 200
          \<and> payments (snd (initiate now tokenReply orderReply raw st)) =
              payments st @ [newPayment appId mo 99 d now]
          \<and> status (newPayment appId mo 99 d now) = ''initiated'')
   \<and> (\<not> complete orderReply
        \<longrightarrow> fst (fst (initiate now tokenReply orderReply raw st)) = 500
          \<and> payments (snd (initiate now tokenReply orderReply raw st)) = payments st)
   \<and> (\<not> tokenGranted now tokenReply st
        \<longrightarrow> fst (fst (initiate now tokenReply orderReply raw st)) = 500
          \<and> payments (snd (initiate now tokenReply orderReply raw st)) = payments st)
   \<and> (payments (snd (initiate now tokenReply orderReply raw st)) \<noteq> payments st
        \<longrightarrow> complete orderReply)
   \<and> applications (snd (initiate now tokenReply orderReply raw st)) = applications st
   \<and> outbox (snd (initiate now tokenReply orderReply raw st)) = outbox st"
proof (intro impI)
  assume g: "\<not> missingFields (sanitizeInitiation raw) \<and> req_amount (sanitizeInitiation raw) = Some 99
   \<and> req_applicationId (sanitizeInitiation raw) = Some appId
   \<and> req_merchantOrderId (sanitizeInitiation raw) = Some mo
   \<and> find (\<lambda>p. merchantOrderId p = mo) (payments st) = None
   \<and> checkDuplicatePayment appId 30 now (payments st) = None"
  then have r: "fst (fst (initiate now tokenReply orderReply raw st)) =
        (if tokenGranted now tokenReply st \<and> complete orderReply then 200 else 500)"
      "payments (snd (initiate now tokenReply orderReply raw st)) =
        (if tokenGranted now tokenReply st \<and> complete orderReply
         then payments st @ [newPayment appId mo 99 (case orderReply of Inr (Some d) \<Rightarrow> d) now]
         else payments st)"
      "applications (snd (initiate now tokenReply orderReply raw st)) = applications st"
      "outbox (snd (initiate now tokenReply orderReply raw st)) = outbox st"
    unfolding initiate_def by (simp_all add: gated_result)
  show "(tokenGranted now tokenReply st \<and> orderReply = Inr (Some d)
        \<and> truthy (gw_redirectUrl d) \<and> truthy (gw_orderId d)
        \<longrightarrow> fst (fst (initiate now tokenReply orderReply raw st)) = 200
          \<and> payments (snd (initiate now tokenReply orderReply raw st)) =
              payments st @ [newPayment appId mo 99 d now]
          \<and> status (newPayment appId mo 99 d now) = ''initiated'')
   \<and> (\<not> complete orderReply
        \<longrightarrow> fst (fst (initiate now tokenReply orderReply raw st)) = 500
          \<and> payments (snd (initiate now tokenReply orderReply raw st)) = payments st)
   \<and> (\<not> tokenGranted now tokenReply st
        \<longrightarrow> fst (fst (initiate now tokenReply orderReply raw st)) = 500
          \<and> payments (snd (initiate now tokenReply orderReply raw st)) = payments st)
   \<and> (payments (snd (initiate now tokenReply orderReply raw st)) \<noteq> payments st
        \<longrightarrow> complete orderReply)
   \<and> applications (snd (initiate now tokenReply orderReply raw st)) = applications st
   \<and> outbox (snd (initiate now tokenReply orderReply raw st)) = outbox st"
    using r by (auto simp: complete_def newPayment_def)
qed

lemma store1_fields: "payments store1 = []" "tokenCache store1 = tokenCache_init" "applications store1 = [app1]" "outbox store1 = []"
  by (simp_all add: store1_def store0_def)

lemma granted_store1: "tokenGranted t token_ok store1"
  by (simp add: tokenGranted_def store1_fields token_fresh)

theorem initiate_persists_only_complete_witness:
  "fst (fst (initiate 1700000060000 token_ok (Inr (Some (order_data ''OMO1''))) (pay_req ''MO_1'') store1)) = 200
   \<and> payments (snd (initiate 1700000060000 token_ok (Inr (Some (order_data ''OMO1''))) (pay_req ''MO_1'') store1)) = [pay1]
   \<and> fst (fst (initiate 1700000060000 token_ok (Inl (AxiosError None None)) (pay_req ''MO_1'') store1)) = 500
   \<and> payments (snd (initiate 1700000060000 token_ok (Inl (AxiosError None None)) (pay_req ''MO_1'') store1)) = []"
  using initiate_persists_only_complete
    [of "pay_req ''MO_1''" "''NF202517000000000007''" "''MO_1''" store1 1700000060000 token_ok
        "Inr (Some (order_data ''OMO1''))" "order_data ''OMO1''"]
    initiate_persists_only_complete
    [of "pay_req ''MO_1''" "''NF202517000000000007''" "''MO_1''" store1 1700000060000 token_ok
        "Inl (AxiosError None None)" "order_data ''OMO1''"]
  by (simp add: san_pay_req pay_req_fields store1_fields checkDuplicatePayment_def granted_store1
        complete_def order_data_def truthy_def pay1_def)

lemma initiations_append:
  "initiations (pre @ post) st = initiations post (initiations pre st)"
  by (induction pre arbitrary: st) simp_all

lemma getsThrough_step:
  assumes "getsThrough q st"
  shows "\<exists>p. payments (snd (initiate (at_now q) (at_tokenReply q) (at_orderReply q) (at_body q) st))
              = payments st @ [p]
            \<and> req_merchantOrderId (sanitizeInitiation (at_body q)) = Some (merchantOrderId p)
            \<and> status p = ''initiated''"
proof -
  from assms obtain appId mo where
    g: "req_applicationId (sanitizeInitiation (at_body q)) = Some appId"
       "req_merchantOrderId (sanitizeInitiation (at_body q)) = Some mo"
       "\<not> missingFields (sanitizeInitiation (at_body q))"
       "req_amount (sanitizeInitiation (at_body q)) = Some 99"
       "find (\<lambda>p. merchantOrderId p = mo) (payments st) = None"
       "checkDuplicatePayment appId 30 (at_now q) (payments st) = None"
    and t: "tokenGranted (at_now q) (at_tokenReply q) st" "complete (at_orderReply q)"
    by (auto simp: getsThrough_def split: option.splits)
  from g t have "payments (snd (initiate (at_now q) (at_tokenReply q) (at_orderReply q) (at_body q) st))
      = payments st @ [newPayment appId mo 99 (case at_orderReply q of Inr (Some d) \<Rightarrow> d) (at_now q)]"
    unfolding initiate_def by (simp add: gated_result)
  with g(2) show ?thesis
    by (simp add: newPayment_def)
qed

lemma step_getsThrough:
  assumes "payments (snd (initiate (at_now q) (at_tokenReply q) (at_orderReply q) (at_body q) st))
             \<noteq> payments st"
  shows "getsThrough q st"
proof -
  let ?b = "sanitizeInitiation (at_body q)"
  from assms obtain appId amt mo where
    f: "req_applicationId ?b = Some appId" "req_amount ?b = Some amt" "req_merchantOrderId ?b = Some mo"
    by (auto simp: initiate_def initiateHandler_def split: option.splits)
  from assms f have m: "\<not> missingFields ?b" and a: "amt = 99"
    by (auto simp: initiate_def initiateHandler_def split: if_splits)
  from assms f m a have e: "find (\<lambda>p. merchantOrderId p = mo) (payments st) = None"
    by (cases "find (\<lambda>p. merchantOrderId p = mo) (payments st)")
       (simp_all add: initiate_def initiateHandler_def)
  from assms f m a e have d: "checkDuplicatePayment appId 30 (at_now q) (payments st) = None"
    by (cases "checkDuplicatePayment appId 30 (at_now q) (payments st)")
       (simp_all add: initiate_def initiateHandler_def)
  from f m a e d have "payments (snd (initiate (at_now q) (at_tokenReply q) (at_orderReply q) (at_body q) st)) =
      (if tokenGranted (at_now q) (at_tokenReply q) st \<and> complete (at_orderReply q)
       then payments st @ [newPayment appId mo 99 (case at_orderReply q of Inr (Some d) \<Rightarrow> d) (at_now q)]
       else payments st)"
    unfolding initiate_def by (simp add: gated_result)
  with assms have "tokenGranted (at_now q) (at_tokenReply q) st \<and> complete (at_orderReply q)"
    by (simp split: if_splits)
  with f m a e d show ?thesis
    by (simp add: getsThrough_def)
qed

lemma initiations_same_or_stored:
  assumes "\<forall>q \<in> set qs. req_merchantOrderId (sanitizeInitiation (at_body q)) = Some mo"
  shows "payments (initiations qs st) = payments st
         \<or> mo \<in> set (map merchantOrderId (payments (initiations qs st)))"
  using assms
proof (induction qs arbitrary: st)
  case Nil
  then show ?case by simp
next
  case (Cons q qs)
  let ?st = "snd (initiate (at_now q) (at_tokenReply q) (at_orderReply q) (at_body q) st)"
  from Cons.prems have mo: "req_merchantOrderId (sanitizeInitiation (at_body q)) = Some mo"
    and rest: "\<forall>q \<in> set qs. req_merchantOrderId (sanitizeInitiation (at_body q)) = Some mo"
    by simp_all
  from initiateHandler_step [of "at_now q" "at_tokenReply q" "at_orderReply q" "sanitizeInitiation (at_body q)" st]
  consider (same) "payments ?st = payments st"
    | (added) p where "payments ?st = payments st @ [p]" "merchantOrderId p = mo"
    using mo by (auto simp: initiate_def)
  then show ?case
  proof cases
    case same
    with Cons.IH [OF rest, of ?st] show ?thesis by simp
  next
    case added
    then have "mo \<in> set (map merchantOrderId (payments ?st))" by simp
    moreover from this rest have "initiations qs ?st = ?st" by (intro initiations_taken)
    ultimately show ?thesis by simp
  qed
qed

lemma initiations_exactly_one:
  assumes share: "\<forall>x \<in> set (pre @ q # post). req_merchantOrderId (sanitizeInitiation (at_body x)) = Some mo"
    and through: "getsThrough q (initiations pre st)"
  shows "\<exists>p. payments (initiations (pre @ q # post) st) = payments st @ [p]
              \<and> merchantOrderId p = mo \<and> status p = ''initiated''"
proof -
  let ?mid = "initiations pre st"
  let ?st = "snd (initiate (at_now q) (at_tokenReply q) (at_orderReply q) (at_body q) ?mid)"
  from share have mo: "req_merchantOrderId (sanitizeInitiation (at_body q)) = Some mo"
    and before: "\<forall>x \<in> set pre. req_merchantOrderId (sanitizeInitiation (at_body x)) = Some mo"
    and after: "\<forall>x \<in> set post. req_merchantOrderId (sanitizeInitiation (at_body x)) = Some mo"
    by simp_all
  from through mo have "find (\<lambda>p. merchantOrderId p = mo) (payments ?mid) = None"
    by (auto simp: getsThrough_def split: option.splits)
  then have "mo \<notin> set (map merchantOrderId (payments ?mid))"
    by (rule find_None_notin)
  with initiations_same_or_stored [OF before, of st] have mid: "payments ?mid = payments st"
    by blast
  from getsThrough_step [OF through] mo obtain p where
    p: "payments ?st = payments ?mid @ [p]" "merchantOrderId p = mo" "status p = ''initiated''"
    by auto
  then have "mo \<in> set (map merchantOrderId (payments ?st))" by simp
  with after have "initiations post ?st = ?st" by (intro initiations_taken)
  with p mid show ?thesis
    by (simp add: initiations_append)
qed

lemma initiations_created_through:
  assumes "payments (initiations qs st) \<noteq> payments st"
  shows "\<exists>pre q post. qs = pre @ q # post \<and> getsThrough q (initiations pre st)"
  using assms
proof (induction qs arbitrary: st)
  case Nil
  then show ?case by simp
next
  case (Cons q qs)
  let ?st = "snd (initiate (at_now q) (at_tokenReply q) (at_orderReply q) (at_body q) st)"
  show ?case
  proof (cases "payments ?st = payments st")
    case False
    then have "getsThrough q st" by (rule step_getsThrough)
    then have "q # qs = [] @ q # qs \<and> getsThrough q (initiations [] st)" by simp
    then show ?thesis by blast
  next
    case True
    with Cons.prems have "payments (initiations qs ?st) \<noteq> payments ?st" by simp
    from Cons.IH [OF this] obtain pre x post where
      "qs = pre @ x # post" "getsThrough x (initiations pre ?st)" by blast
    then have "q # qs = (q # pre) @ x # post \<and> getsThrough x (initiations (q # pre) st)" by simp
    then show ?thesis by blast
  qed
qed

text \<open>
  C2, as the code has it. For a request with every field present and the amount 99
  whose merchant order id already has a PaymentOrder, the answer is 409, the store is
  unchanged and the answer carries the stored order's status. In a run of initiation
  requests that share one merchant order id, exactly one request creates a PaymentOrder
  as soon as one request of the run gets through (it passes the gates at the store it
  meets, a token is obtained and the gateway's reply is complete); no PaymentOrder is
  created when no request gets through, or when the id is already stored; and never
  more than one is created.
\<close>

theorem initiate_idempotency_guard:
  "(\<not> missingFields (sanitizeInitiation raw) \<and> req_amount (sanitizeInitiation raw) = Some 99
      \<and> req_merchantOrderId (sanitizeInitiation raw) = Some mo
      \<and> find (\<lambda>p. merchantOrderId p = mo) (payments st) = Some existing
      \<longrightarrow> initiate now tokenReply orderReply raw st =
            ((409, ExistingPayment ''Payment already exists for this order ID''
                     (merchantOrderId existing) (status existing) (createdAt existing)), st))
   \<and> ((\<forall>x \<in> set (pre @ q # post). req_merchantOrderId (sanitizeInitiation (at_body x)) = Some mo1)
        \<and> getsThrough q (initiations pre st1)
      \<longrightarrow> (\<exists>p. payments (initiations (pre @ q # post) st1) = payments st1 @ [p]
                \<and> merchantOrderId p = mo1 \<and> status p = ''initiated''))
   \<and> ((\<forall>pre q post. qs2 = pre @ q # post \<longrightarrow> \<not> getsThrough q (initiations pre st2))
      \<longrightarrow> payments (initiations qs2 st2) = payments st2)
   \<and> ((\<forall>q \<in> set qs. req_merchantOrderId (sanitizeInitiation (at_body q)) = Some mo')
      \<longrightarrow> length (payments (initiations qs st')) \<le> length (payments st') + 1
        \<and> (mo' \<in> set (map merchantOrderId (payments st')) \<longrightarrow> initiations qs st' = st'))"
proof (intro conjI impI)
  assume "\<not> missingFields (sanitizeInitiation raw) \<and> req_amount (sanitizeInitiation raw) = Some 99
      \<and> req_merchantOrderId (sanitizeInitiation raw) = Some mo
      \<and> find (\<lambda>p. merchantOrderId p = mo) (payments st) = Some existing"
  then show "initiate now tokenReply orderReply raw st =
            ((409, ExistingPayment ''Payment already exists for this order ID''
                     (merchantOrderId existing) (status existing) (createdAt existing)), st)"
    by (simp add: initiate_def initiateHandler_existing)
next
  assume h: "(\<forall>x \<in> set (pre @ q # post). req_merchantOrderId (sanitizeInitiation (at_body x)) = Some mo1)
        \<and> getsThrough q (initiations pre st1)"
  then show "\<exists>p. payments (initiations (pre @ q # post) st1) = payments st1 @ [p]
                \<and> merchantOrderId p = mo1 \<and> status p = ''initiated''"
    using initiations_exactly_one [of pre q post mo1 st1] by blast
next
  assume "\<forall>pre q post. qs2 = pre @ q # post \<longrightarrow> \<not> getsThrough q (initiations pre st2)"
  then show "payments (initiations qs2 st2) = payments st2"
    using initiations_created_through [of qs2 st2] by blast
next
  assume "\<forall>q \<in> set qs. req_merchantOrderId (sanitizeInitiation (at_body q)) = Some mo'"
  then show "length (payments (initiations qs st')) \<le> length (payments st') + 1"
    by (rule initiations_at_most_one)
next
  assume "\<forall>q \<in> set qs. req_merchantOrderId (sanitizeInitiation (at_body q)) = Some mo'"
    and "mo' \<in> set (map merchantOrderId (payments st'))"
  then show "initiations qs st' = st'"
    by (rule initiations_taken)
qed

lemma single_split: "[x] = pre @ q # post \<longleftrightarrow> pre = [] \<and> q = x \<and> post = []"
  by (cases pre) auto

lemma try_at_fields:
  "at_now (try_at t orr) = t" "at_tokenReply (try_at t orr) = token_ok"
  "at_orderReply (try_at t orr) = orr" "at_body (try_at t orr) = pay_req ''MO_1''"
  by (simp_all add: try_at_def)

lemma not_complete_down: "\<not> complete gateway_down"
  by (simp add: complete_def gateway_down_def)

lemma down_store1:
  "initiate 1700000060000 token_ok gateway_down (pay_req ''MO_1'') store1 =
     ((500, Message ''Service unavailable''),
      store1\<lparr>tokenCache := \<lparr>token = Some ''tok'', expiresAt = Some 1700003660000\<rparr>\<rparr>)"
  by (simp add: initiate_def san_pay_req initiateHandler_def pay_req_fields)
     (simp add: store1_fields token_fresh checkDuplicatePayment_def createOrder_def gateway_down_def
        errorMessage_def truthy_def)

lemma getsThrough_first:
  "getsThrough (try_at 1700000060000 (Inr (Some (order_data ''OMO1'')))) store1"
  by (simp add: getsThrough_def try_at_fields san_pay_req pay_req_fields store1_fields
        checkDuplicatePayment_def granted_store1 complete_order_ok)

lemma getsThrough_retry:
  "getsThrough (try_at 1700000090000 (Inr (Some (order_data ''OMO1''))))
     (store1\<lparr>tokenCache := \<lparr>token = Some ''tok'', expiresAt = Some 1700003660000\<rparr>\<rparr>)"
  by (simp add: getsThrough_def try_at_fields san_pay_req pay_req_fields store1_fields
        checkDuplicatePayment_def tokenGranted_def token_cached complete_order_ok)

text \<open>The witness: a second request for the stored id is answered 409 with its status;
  of two requests that both could get through, one creates the order; after a request
  that the gateway refused, the retry creates it; the refused request alone creates
  nothing.\<close>

theorem initiate_idempotency_guard_witness:
  "initiate 1700000090000 token_ok (Inr (Some (order_data ''OMO2''))) (pay_req ''MO_1'') store2 =
     ((409, ExistingPayment ''Payment already exists for this order ID'' ''MO_1'' ''initiated''
              1700000060000), store2)
   \<and> length (payments (initiations
        [try_at 1700000060000 (Inr (Some (order_data ''OMO1''))),
         try_at 1700000090000 (Inr (Some (order_data ''OMO2'')))] store1)) = 1
   \<and> length (payments (initiations
        [try_at 1700000060000 gateway_down,
         try_at 1700000090000 (Inr (Some (order_data ''OMO1'')))] store1)) = 1
   \<and> payments (initiations [try_at 1700000060000 gateway_down] store1) = []"
proof -
  from initiate_idempotency_guard
    [of "pay_req ''MO_1''" "''MO_1''" store2 pay1 1700000090000 token_ok
        "Inr (Some (order_data ''OMO2''))"
        "[]" "try_at 1700000060000 (Inr (Some (order_data ''OMO1'')))" "[]" "''MO_1''" store1
        "[]" store1 "[]" "''MO_1''" store1]
  have echo: "initiate 1700000090000 token_ok (Inr (Some (order_data ''OMO2''))) (pay_req ''MO_1'') store2 =
     ((409, ExistingPayment ''Payment already exists for this order ID'' ''MO_1'' ''initiated''
              1700000060000), store2)"
    by (simp add: san_pay_req pay_req_fields store2_def pay1_def newPayment_def)
  from initiate_idempotency_guard
    [of "pay_req ''MO_1''" "''MO_1''" store2 pay1 1700000090000 token_ok
        "Inr (Some (order_data ''OMO2''))"
        "[]" "try_at 1700000060000 (Inr (Some (order_data ''OMO1'')))"
        "[try_at 1700000090000 (Inr (Some (order_data ''OMO2'')))]" "''MO_1''" store1
        "[]" store1 "[]" "''MO_1''" store1]
    getsThrough_first
  have both: "length (payments (initiations
        [try_at 1700000060000 (Inr (Some (order_data ''OMO1''))),
         try_at 1700000090000 (Inr (Some (order_data ''OMO2'')))] store1)) = 1"
    by (auto simp: try_at_fields san_pay_req pay_req_fields store1_fields)
  from initiate_idempotency_guard
    [of "pay_req ''MO_1''" "''MO_1''" store2 pay1 1700000090000 token_ok
        "Inr (Some (order_data ''OMO2''))"
        "[try_at 1700000060000 gateway_down]"
        "try_at 1700000090000 (Inr (Some (order_data ''OMO1'')))" "[]" "''MO_1''" store1
        "[]" store1 "[]" "''MO_1''" store1]
    getsThrough_retry
  have retry: "length (payments (initiations
        [try_at 1700000060000 gateway_down,
         try_at 1700000090000 (Inr (Some (order_data ''OMO1'')))] store1)) = 1"
    by (auto simp: try_at_fields san_pay_req pay_req_fields store1_fields down_store1)
  from initiate_idempotency_guard
    [of "pay_req ''MO_1''" "''MO_1''" store2 pay1 1700000090000 token_ok
        "Inr (Some (order_data ''OMO2''))"
        "[]" "try_at 1700000060000 (Inr (Some (order_data ''OMO1'')))" "[]" "''MO_1''" store1
        "[try_at 1700000060000 gateway_down]" store1 "[]" "''MO_1''" store1]
  have alone: "payments (initiations [try_at 1700000060000 gateway_down] store1) = []"
    by (simp add: single_split getsThrough_def try_at_fields not_complete_down store1_fields
          split: option.splits)
  from echo both retry alone show ?thesis
    by simp
qed

text \<open>
  The claim as worded fails: no PaymentOrder is stored for MO_1, the only request for
  it is refused by the gateway and answered 500, and no PaymentOrder is created, so not
  exactly one.
\<close>

theorem initiate_idempotency_counterexample:
  "payments store1 = []
   \<and> initiate 1700000060000 token_ok gateway_down (pay_req ''MO_1'') store1 =
       ((500, Message ''Service unavailable''),
        store1\<lparr>tokenCache := \<lparr>token = Some ''tok'', expiresAt = Some 1700003660000\<rparr>\<rparr>)
   \<and> payments (initiations [try_at 1700000060000 gateway_down] store1) = []"
  by (simp add: store1_fields down_store1 try_at_fields)

lemma find_Some_first: "P a \<Longrightarrow> a \<in> set xs \<Longrightarrow> \<exists>b. find P xs = Some b \<and> P b"
  by (induction xs) auto

lemma initiateHandler_duplicate:
  assumes "\<not> missingFields b" "req_amount b = Some 99" "req_applicationId b = Some appId"
    "req_merchantOrderId b = Some mo" "find (\<lambda>p. merchantOrderId p = mo) (payments st) = None"
    "checkDuplicatePayment appId 30 now (payments st) = Some dup"
  shows "initiateHandler now tr orr b st =
     ((409, ExistingPayment (''Payment already exists for this application. Status: '' @ status dup)
              (merchantOrderId dup) (status dup) (createdAt dup)), st)"
  using assms by (simp add: initiateHandler_def)

text \<open>
  C5, as the code has it. The window is measured from the creation of the completed
  order, not from the moment it became completed. For a request that passes the checks
  before the guard (fields, amount, unused merchant order id): if the application has a
  completed PaymentOrder created at most 30 minutes before the request, the answer is
  409 and the store is unchanged; if every completed PaymentOrder of the application was
  created more than 30 minutes before, the guard lets the request through: the answer is
  not 409, and with a token and a complete gateway reply it is 200 and the new
  PaymentOrder is stored.
\<close>

theorem initiate_duplicate_window:
  "\<not> missingFields (sanitizeInitiation raw) \<and> req_amount (sanitizeInitiation raw) = Some 99
   \<and> req_applicationId (sanitizeInitiation raw) = Some appId
   \<and> req_merchantOrderId (sanitizeInitiation raw) = Some mo
   \<and> find (\<lambda>p. merchantOrderId p = mo) (payments st) = None
   \<longrightarrow>
     (p \<in> set (payments st) \<and> applicationId p = appId \<and> status p = ''completed''
        \<and> now - 30 * 60 * 1000 \<le> createdAt p
        \<longrightarrow> fst (fst (initiate now tokenReply orderReply raw st)) = 409
          \<and> snd (initiate now tokenReply orderReply raw st) = st)
   \<and> ((\<forall>q \<in> set (payments st). applicationId q = appId \<and> status q = ''completed''
            \<longrightarrow> createdAt q < now - 30 * 60 * 1000)
        \<longrightarrow> fst (fst (initiate now tokenReply orderReply raw st)) \<noteq> 409
          \<and> (tokenGranted now tokenReply st \<and> orderReply = Inr (Some d)
               \<and> truthy (gw_redirectUrl d) \<and> truthy (gw_orderId d)
             \<longrightarrow> fst (fst (initiate now tokenReply orderReply raw st)) = 200
               \<and> payments (snd (initiate now tokenReply orderReply raw st)) =
                   payments st @ [newPayment appId mo 99 d now]))"
proof (intro impI conjI)
  assume g: "\<not> missingFields (sanitizeInitiation raw) \<and> req_amount (sanitizeInitiation raw) = Some 99
   \<and> req_applicationId (sanitizeInitiation raw) = Some appId
   \<and> req_merchantOrderId (sanitizeInitiation raw) = Some mo
   \<and> find (\<lambda>p. merchantOrderId p = mo) (payments st) = None"
  {
    assume "p \<in> set (payments st) \<and> applicationId p = appId \<and> status p = ''completed''
        \<and> now - 30 * 60 * 1000 \<le> createdAt p"
    then obtain dup where "checkDuplicatePayment appId 30 now (payments st) = Some dup"
      unfolding checkDuplicatePayment_def
      using find_Some_first
        [of "\<lambda>p. applicationId p = appId \<and> status p = ''completed''
               \<and> now - 30 * 60 * 1000 \<le> createdAt p" p "payments st"]
      by auto
    with g have "initiate now tokenReply orderReply raw st =
       ((409, ExistingPayment (''Payment already exists for this application. Status: '' @ status dup)
              (merchantOrderId dup) (status dup) (createdAt dup)), st)"
      by (simp add: initiate_def initiateHandler_duplicate)
    then show "fst (fst (initiate now tokenReply orderReply raw st)) = 409"
      and "snd (initiate now tokenReply orderReply raw st) = st"
      by simp_all
  }
  {
    assume "\<forall>q \<in> set (payments st). applicationId q = appId \<and> status q = ''completed''
            \<longrightarrow> createdAt q < now - 30 * 60 * 1000"
    then have none: "checkDuplicatePayment appId 30 now (payments st) = None"
      by (auto simp: checkDuplicatePayment_def find_None_all)
    with g have r: "fst (fst (initiate now tokenReply orderReply raw st)) =
          (if tokenGranted now tokenReply st \<and> complete orderReply then 200 else 500)"
        "payments (snd (initiate now tokenReply orderReply raw st)) =
          (if tokenGranted now tokenReply st \<and> complete orderReply
           then payments st @ [newPayment appId mo 99 (case orderReply of Inr (Some d) \<Rightarrow> d) now]
           else payments st)"
      unfolding initiate_def by (simp_all add: gated_result)
    from r show "fst (fst (initiate now tokenReply orderReply raw st)) \<noteq> 409"
      by simp
    {
      assume "tokenGranted now tokenReply st \<and> orderReply = Inr (Some d)
               \<and> truthy (gw_redirectUrl d) \<and> truthy (gw_orderId d)"
      with r show "fst (fst (initiate now tokenReply orderReply raw st)) = 200"
        and "payments (snd (initiate now tokenReply orderReply raw st)) =
                   payments st @ [newPayment appId mo 99 d now]"
        by (simp_all add: complete_def)
    }
  }
qed

section \<open>Properties of status reconciliation\<close>

lemma fOU_fst: "fst (findOneAndUpdate P f xs) = map_option f (find P xs)"
  by (induction xs) auto

lemma fOU_None: "find P xs = None \<Longrightarrow> snd (findOneAndUpdate P f xs) = xs"
  by (induction xs) (auto split: if_splits)

lemma fOU_find:
  "(\<And>x. P x \<Longrightarrow> P (f x)) \<Longrightarrow> find P (snd (findOneAndUpdate P f xs)) = map_option f (find P xs)"
  by (induction xs) auto

lemma fOU_others:
  "(\<And>x. P x \<Longrightarrow> P (f x)) \<Longrightarrow>
     filter (\<lambda>x. \<not> P x) (snd (findOneAndUpdate P f xs)) = filter (\<lambda>x. \<not> P x) xs"
  by (induction xs) auto

lemma reconcile_store:
  "payments (snd (reconcile now mail mo lp d st)) =
     snd (findOneAndUpdate (\<lambda>p. merchantOrderId p = mo) (paymentUpdate now d) (payments st))"
  "applications (snd (reconcile now mail mo lp d st)) =
     snd (findOneAndUpdate (\<lambda>a. app_applicationId a = applicationId lp) (applicationUpdate now d)
            (applications st))"
  "tokenCache (snd (reconcile now mail mo lp d st)) = tokenCache st"
  by (simp_all add: reconcile_def Let_def split: prod.splits option.splits)

lemma reconcile_outbox:
  "outbox (snd (reconcile now mail mo lp d st)) =
     (case find (\<lambda>a. app_applicationId a = applicationId lp) (applications st) of
        Some a \<Rightarrow>
          if gw_state d = Some ''COMPLETED'' \<and> status lp \<noteq> ''completed''
          then outbox st @ [\<lparr>note_applicationId = app_applicationId a, note_to = app_email a,
                  note_orderId = gw_orderId d, note_sent = (mail = Accepted)\<rparr>]
          else outbox st
      | None \<Rightarrow> outbox st)"
proof -
  have "fst (findOneAndUpdate (\<lambda>a. app_applicationId a = applicationId lp) (applicationUpdate now d)
            (applications st)) =
        map_option (applicationUpdate now d) (find (\<lambda>a. app_applicationId a = applicationId lp) (applications st))"
    by (rule fOU_fst)
  then show ?thesis
    by (auto simp: reconcile_def Let_def shouldSendEmail_def sendConfirmationEmail_def applicationUpdate_def
        split: prod.splits option.splits)
qed

lemma reconcile_response:
  assumes "find (\<lambda>p. merchantOrderId p = mo) (payments st) = Some lp"
  shows "fst (reconcile now mail mo lp d st) =
     (200, StatusOk d (applicationId lp) (localStatus (gw_state d)) (createdAt lp) now)"
proof -
  have "fst (findOneAndUpdate (\<lambda>p. merchantOrderId p = mo) (paymentUpdate now d) (payments st)) =
        Some (paymentUpdate now d lp)"
    by (simp add: fOU_fst assms)
  then show ?thesis
    by (auto simp: reconcile_def Let_def paymentUpdate_def split: prod.splits option.splits)
qed

lemma statusHandler_reached:
  assumes "reaches now tr sr mo st lp d"
  shows "statusHandler now tr sr mail mo st =
     reconcile now mail mo lp d (st\<lparr>tokenCache := snd (generateAuthToken now tr (tokenCache st))\<rparr>)"
  using assms
  by (auto simp: reaches_def tokenGranted_def statusHandler_def split: prod.splits sum.splits)

lemma statusHandler_unreached:
  assumes "\<forall>lp d. \<not> reaches now tr sr mo st lp d"
  shows "payments (snd (statusHandler now tr sr mail mo st)) = payments st"
    and "applications (snd (statusHandler now tr sr mail mo st)) = applications st"
    and "outbox (snd (statusHandler now tr sr mail mo st)) = outbox st"
  using assms
  by (auto simp: reaches_def tokenGranted_def statusHandler_def split: prod.splits sum.splits option.splits)

lemma paymentUpdate_key: "merchantOrderId (paymentUpdate now d p) = merchantOrderId p"
  "applicationId (paymentUpdate now d p) = applicationId p"
  "createdAt (paymentUpdate now d p) = createdAt p"
  "status (paymentUpdate now d p) = localStatus (gw_state d)"
  by (simp_all add: paymentUpdate_def)

lemma applicationUpdate_key: "app_applicationId (applicationUpdate now d a) = app_applicationId a"
  by (simp add: applicationUpdate_def)

lemma reached_payment:
  assumes "reaches now tr sr mo st lp d"
  shows "find (\<lambda>p. merchantOrderId p = mo) (payments (snd (statusHandler now tr sr mail mo st)))
           = Some (paymentUpdate now d lp)"
proof -
  from assms have f: "find (\<lambda>p. merchantOrderId p = mo) (payments st) = Some lp"
    by (simp add: reaches_def)
  show ?thesis
    by (simp add: statusHandler_reached [OF assms] reconcile_store fOU_find paymentUpdate_key f)
qed

lemma reached_outbox:
  assumes "reaches now tr sr mo st lp d"
  shows "outbox (snd (statusHandler now tr sr mail mo st)) =
     (case find (\<lambda>a. app_applicationId a = applicationId lp) (applications st) of
        Some a \<Rightarrow>
          if gw_state d = Some ''COMPLETED'' \<and> status lp \<noteq> ''completed''
          then outbox st @ [\<lparr>note_applicationId = app_applicationId a, note_to = app_email a,
                  note_orderId = gw_orderId d, note_sent = (mail = Accepted)\<rparr>]
          else outbox st
      | None \<Rightarrow> outbox st)"
  by (auto simp: statusHandler_reached [OF assms] reconcile_outbox split: option.splits)

lemma reached_applications:
  assumes "reaches now tr sr mo st lp d"
  shows "applications (snd (statusHandler now tr sr mail mo st)) =
     snd (findOneAndUpdate (\<lambda>a. app_applicationId a = applicationId lp) (applicationUpdate now d)
            (applications st))"
  by (simp add: statusHandler_reached [OF assms] reconcile_store)

lemma reached_response:
  assumes "reaches now tr sr mo st lp d"
  shows "fst (statusHandler now tr sr mail mo st) =
     (200, StatusOk d (applicationId lp) (localStatus (gw_state d)) (createdAt lp) now)"
proof -
  from assms have f: "find (\<lambda>p. merchantOrderId p = mo) (payments st) = Some lp"
    by (simp add: reaches_def)
  show ?thesis
    by (simp add: statusHandler_reached [OF assms] reconcile_response f)
qed

lemma reached_completedOrSilent:
  "reaches (poll_now q) (poll_tokenReply q) (poll_statusReply q) mo st lp d \<Longrightarrow>
     completedOrSilent q \<Longrightarrow> gw_state d = Some ''COMPLETED''"
  by (simp add: reaches_def completedOrSilent_def)

lemma reached_not_reportsCompleted:
  "reaches (poll_now q) (poll_tokenReply q) (poll_statusReply q) mo st lp d \<Longrightarrow>
     \<not> reportsCompleted q \<Longrightarrow> gw_state d \<noteq> Some ''COMPLETED''"
  by (simp add: reaches_def reportsCompleted_def)

lemma reportsCompleted_imp: "reportsCompleted q \<Longrightarrow> completedOrSilent q"
  by (auto simp: reportsCompleted_def completedOrSilent_def split: sum.splits option.splits)

lemma step_outbox_le:
  "length (outbox (snd (statusHandler now tr sr mail mo st))) \<le> length (outbox st) + 1"
proof (cases "\<exists>lp d. reaches now tr sr mo st lp d")
  case True
  then obtain lp d where "reaches now tr sr mo st lp d" by blast
  then show ?thesis by (simp add: reached_outbox split: option.splits)
next
  case False
  then show ?thesis by (simp add: statusHandler_unreached)
qed

lemma polls_quiet:
  assumes "list_all completedOrSilent qs"
    and "\<forall>lp. find (\<lambda>p. merchantOrderId p = mo) (payments st) = Some lp \<longrightarrow> status lp = ''completed''"
  shows "outbox (polls qs mo st) = outbox st"
  using assms
proof (induction qs arbitrary: st)
  case Nil
  then show ?case by simp
next
  case (Cons q qs)
  let ?st = "snd (statusHandler (poll_now q) (poll_tokenReply q) (poll_statusReply q) (poll_mail q) mo st)"
  from Cons.prems have q: "completedOrSilent q" and rest: "list_all completedOrSilent qs" by simp_all
  have "outbox ?st = outbox st \<and>
        (\<forall>lp. find (\<lambda>p. merchantOrderId p = mo) (payments ?st) = Some lp \<longrightarrow> status lp = ''completed'')"
  proof (cases "\<exists>lp d. reaches (poll_now q) (poll_tokenReply q) (poll_statusReply q) mo st lp d")
    case True
    then obtain lp d where r: "reaches (poll_now q) (poll_tokenReply q) (poll_statusReply q) mo st lp d" by blast
    then have "find (\<lambda>p. merchantOrderId p = mo) (payments st) = Some lp" by (simp add: reaches_def)
    with Cons.prems(2) have "status lp = ''completed''" by simp
    moreover from r q have "gw_state d = Some ''COMPLETED''" by (rule reached_completedOrSilent)
    ultimately show ?thesis
      by (simp add: reached_outbox [OF r] reached_payment [OF r] paymentUpdate_key localStatus_def
            split: option.splits)
  next
    case False
    with Cons.prems(2) show ?thesis by (simp add: statusHandler_unreached)
  qed
  with Cons.IH [OF rest, of ?st] show ?case by simp
qed

lemma polls_once:
  assumes "list_all completedOrSilent qs"
  shows "length (outbox (polls qs mo st)) \<le> length (outbox st) + 1"
  using assms
proof (induction qs arbitrary: st)
  case Nil
  then show ?case by simp
next
  case (Cons q qs)
  let ?st = "snd (statusHandler (poll_now q) (poll_tokenReply q) (poll_statusReply q) (poll_mail q) mo st)"
  from Cons.prems have q: "completedOrSilent q" and rest: "list_all completedOrSilent qs" by simp_all
  show ?case
  proof (cases "\<exists>lp d. reaches (poll_now q) (poll_tokenReply q) (poll_statusReply q) mo st lp d")
    case True
    then obtain lp d where r: "reaches (poll_now q) (poll_tokenReply q) (poll_statusReply q) mo st lp d" by blast
    from r q have "gw_state d = Some ''COMPLETED''" by (rule reached_completedOrSilent)
    then have "\<forall>lp. find (\<lambda>p. merchantOrderId p = mo) (payments ?st) = Some lp \<longrightarrow> status lp = ''completed''"
      by (simp add: reached_payment [OF r] paymentUpdate_key localStatus_def)
    with rest have "outbox (polls qs mo ?st) = outbox ?st" by (rule polls_quiet)
    with step_outbox_le [of "poll_now q" "poll_tokenReply q" "poll_statusReply q" "poll_mail q" mo st]
    show ?thesis by simp
  next
    case False
    then have "outbox ?st = outbox st" by (simp add: statusHandler_unreached)
    with Cons.IH [OF rest, of ?st] show ?thesis by simp
  qed
qed

lemma polls_settled:
  assumes "settled qs"
  shows "length (outbox (polls qs mo st)) \<le> length (outbox st) + 1"
  using assms
proof (induction qs arbitrary: st)
  case Nil
  then show ?case by simp
next
  case (Cons q qs)
  let ?st = "snd (statusHandler (poll_now q) (poll_tokenReply q) (poll_statusReply q) (poll_mail q) mo st)"
  show ?case
  proof (cases "reportsCompleted q")
    case True
    with Cons.prems have "list_all completedOrSilent (q # qs)" by (simp add: reportsCompleted_imp)
    then show ?thesis by (rule polls_once)
  next
    case False
    with Cons.prems have rest: "settled qs" by simp
    have "outbox ?st = outbox st"
    proof (cases "\<exists>lp d. reaches (poll_now q) (poll_tokenReply q) (poll_statusReply q) mo st lp d")
      case True
      then obtain lp d where r: "reaches (poll_now q) (poll_tokenReply q) (poll_statusReply q) mo st lp d" by blast
      from r False have "gw_state d \<noteq> Some ''COMPLETED''" by (rule reached_not_reportsCompleted)
      then show ?thesis by (simp add: reached_outbox [OF r] split: option.splits)
    next
      case False
      then show ?thesis by (simp add: statusHandler_unreached)
    qed
    with Cons.IH [OF rest, of ?st] show ?thesis by simp
  qed
qed

lemmas status_eval =
  statusHandler_def reconcile_def Let_def shouldSendEmail_def sendConfirmationEmail_def
  paymentUpdate_def applicationUpdate_def apply_patch_def orderIdPatch_def localStatus_def
  applicationStatus_def
  generateAuthToken_def cache_hit_def truthy_def token_ok_def status_data_def
  store3_def store2_def store1_def store0_def pay1_def app1_def newPayment_def newApplication_def
  order_data_def store2_orphan_def store2_rejected_def poll_at_def

lemma reconcile_mail:
  "fst (reconcile now mail mo lp d st) = fst (reconcile now mail' mo lp d st)"
  "payments (snd (reconcile now mail mo lp d st)) = payments (snd (reconcile now mail' mo lp d st))"
  "applications (snd (reconcile now mail mo lp d st)) = applications (snd (reconcile now mail' mo lp d st))"
  by (simp_all add: reconcile_def Let_def sendConfirmationEmail_def split: prod.splits option.splits)

lemma statusHandler_mail:
  "fst (statusHandler now tr sr mail mo st) = fst (statusHandler now tr sr mail' mo st)"
  "payments (snd (statusHandler now tr sr mail mo st)) = payments (snd (statusHandler now tr sr mail' mo st))"
  "applications (snd (statusHandler now tr sr mail mo st)) = applications (snd (statusHandler now tr sr mail' mo st))"
  using reconcile_mail(1-3) [of now mail mo _ _ _ mail']
  by (simp_all add: statusHandler_def split: option.splits prod.splits sum.splits)

text \<open>
  C1, as the code has it. A status request triggers the confirmation email only if it
  gets as far as the gateway's state, that state is COMPLETED, the stored status of the
  PaymentOrder was not already "completed", and the Application that the order names
  exists; under these conditions it triggers exactly one. In a run of polls of one
  order in which the gateway does not take COMPLETED back, at most one email is
  triggered in total. The answer of a request that gets as far as the gateway's state
  is 200 with the gateway's data, and no answer depends on what the mail provider does.
\<close>

theorem notification_once:
  "(outbox (snd (statusHandler now1 tr1 sr1 mail1 mo1 st1)) \<noteq> outbox st1
      \<longrightarrow> (\<exists>lp d a. reaches now1 tr1 sr1 mo1 st1 lp d \<and> gw_state d = Some ''COMPLETED''
             \<and> status lp \<noteq> ''completed''
             \<and> find (\<lambda>a. app_applicationId a = applicationId lp) (applications st1) = Some a))
   \<and> (reaches now2 tr2 sr2 mo2 st2 lp2 d2 \<and> gw_state d2 = Some ''COMPLETED''
        \<and> status lp2 \<noteq> ''completed''
        \<and> find (\<lambda>a. app_applicationId a = applicationId lp2) (applications st2) = Some a2
      \<longrightarrow> outbox (snd (statusHandler now2 tr2 sr2 mail2 mo2 st2)) =
            outbox st2 @ [\<lparr>note_applicationId = app_applicationId a2, note_to = app_email a2,
                            note_orderId = gw_orderId d2, note_sent = (mail2 = Accepted)\<rparr>])
   \<and> (settled qs \<longrightarrow> length (outbox (polls qs mo3 st3)) \<le> length (outbox st3) + 1)
   \<and> (reaches now4 tr4 sr4 mo4 st4 lp4 d4
      \<longrightarrow> fst (statusHandler now4 tr4 sr4 mail4 mo4 st4) =
            (200, StatusOk d4 (applicationId lp4) (localStatus (gw_state d4)) (createdAt lp4) now4))
   \<and> fst (statusHandler now5 tr5 sr5 mail5 mo5 st5) = fst (statusHandler now5 tr5 sr5 mail5' mo5 st5)"
proof (intro conjI impI)
  assume ch: "outbox (snd (statusHandler now1 tr1 sr1 mail1 mo1 st1)) \<noteq> outbox st1"
  then obtain lp d where r: "reaches now1 tr1 sr1 mo1 st1 lp d"
    using statusHandler_unreached(3) [of now1 tr1 sr1 mo1 st1 mail1] by blast
  with ch have "gw_state d = Some ''COMPLETED'' \<and> status lp \<noteq> ''completed''
      \<and> (\<exists>a. find (\<lambda>a. app_applicationId a = applicationId lp) (applications st1) = Some a)"
    by (auto simp: reached_outbox [OF r] split: option.splits if_splits)
  with r show "\<exists>lp d a. reaches now1 tr1 sr1 mo1 st1 lp d \<and> gw_state d = Some ''COMPLETED''
             \<and> status lp \<noteq> ''completed''
             \<and> find (\<lambda>a. app_applicationId a = applicationId lp) (applications st1) = Some a"
    by blast
next
  assume "reaches now2 tr2 sr2 mo2 st2 lp2 d2 \<and> gw_state d2 = Some ''COMPLETED''
        \<and> status lp2 \<noteq> ''completed''
        \<and> find (\<lambda>a. app_applicationId a = applicationId lp2) (applications st2) = Some a2"
  then show "outbox (snd (statusHandler now2 tr2 sr2 mail2 mo2 st2)) =
            outbox st2 @ [\<lparr>note_applicationId = app_applicationId a2, note_to = app_email a2,
                            note_orderId = gw_orderId d2, note_sent = (mail2 = Accepted)\<rparr>]"
    by (simp add: reached_outbox [of now2 tr2 sr2 mo2 st2 lp2 d2])
next
  assume "settled qs"
  then show "length (outbox (polls qs mo3 st3)) \<le> length (outbox st3) + 1"
    by (rule polls_settled)
next
  assume "reaches now4 tr4 sr4 mo4 st4 lp4 d4"
  then show "fst (statusHandler now4 tr4 sr4 mail4 mo4 st4) =
            (200, StatusOk d4 (applicationId lp4) (localStatus (gw_state d4)) (createdAt lp4) now4)"
    by (rule reached_response)
next
  show "fst (statusHandler now5 tr5 sr5 mail5 mo5 st5) = fst (statusHandler now5 tr5 sr5 mail5' mo5 st5)"
    by (rule statusHandler_mail)
qed

lemma reaches_store2:
  "t < 1700003600000 \<Longrightarrow> reaches t tr (Inr (Some d)) ''MO_1'' store2 pay1 d"
  by (simp add: reaches_def tokenGranted_def store2_def store1_def store0_def pay1_def newPayment_def
        generateAuthToken_def cache_hit_def truthy_def)

lemma store2_app: "find (\<lambda>a. app_applicationId a = applicationId pay1) (applications store2) = Some app1"
  by (simp add: store2_def store1_def store0_def pay1_def newPayment_def app1_def newApplication_def)

lemma settled_sample: "settled [poll_at 1700000360000 ''COMPLETED'', poll_at 1700000420000 ''COMPLETED'']"
  by (simp add: reportsCompleted_def completedOrSilent_def poll_at_def status_data_def)

lemma store2_fields:
  "outbox store2 = []" "payments store2 = [pay1]" "applications store2 = [app1]"
  by (simp_all add: store2_def store1_def store0_def)

lemma pay1_fields:
  "status pay1 = ''initiated''" "applicationId pay1 = ''NF202517000000000007''"
  "merchantOrderId pay1 = ''MO_1''" "createdAt pay1 = 1700000060000"
  by (simp_all add: pay1_def newPayment_def)

lemma app1_fields:
  "app_applicationId app1 = ''NF202517000000000007''" "app_email app1 = ''a@b.com''"
  "app_status app1 = ''pending''" "paymentStatus app1 = ''pending''" "paymentOrderId app1 = None"
  by (simp_all add: app1_def newApplication_def)

lemma status_data_fields: "gw_state (status_data s) = Some s" "gw_orderId (status_data s) = Some ''OMO1''"
  by (simp_all add: status_data_def)

theorem notification_once_witness:
  "outbox (snd (statusHandler 1700000360000 token_ok (Inr (Some (status_data ''COMPLETED'')))
       Crashed ''MO_1'' store2)) =
     [\<lparr>note_applicationId = ''NF202517000000000007'', note_to = ''a@b.com'',
       note_orderId = Some ''OMO1'', note_sent = False\<rparr>]
   \<and> fst (fst (statusHandler 1700000360000 token_ok (Inr (Some (status_data ''COMPLETED'')))
       Crashed ''MO_1'' store2)) = 200
   \<and> length (outbox (polls [poll_at 1700000360000 ''COMPLETED'', poll_at 1700000420000 ''COMPLETED'']
        ''MO_1'' store2)) \<le> 1"
proof -
  have r: "reaches 1700000360000 token_ok (Inr (Some (status_data ''COMPLETED''))) ''MO_1'' store2 pay1
      (status_data ''COMPLETED'')"
    by (simp add: reaches_store2)
  note inst = notification_once
    [of 1700000360000 token_ok "Inr (Some (status_data ''COMPLETED''))" Crashed "''MO_1''" store2
        1700000360000 token_ok "Inr (Some (status_data ''COMPLETED''))" "''MO_1''" store2 pay1
        "status_data ''COMPLETED''" app1 Crashed
        "[poll_at 1700000360000 ''COMPLETED'', poll_at 1700000420000 ''COMPLETED'']" "''MO_1''" store2
        1700000360000 token_ok "Inr (Some (status_data ''COMPLETED''))" "''MO_1''" store2 pay1
        "status_data ''COMPLETED''" Crashed]
  from inst r store2_app settled_sample show ?thesis
    by (simp add: store2_fields pay1_fields app1_fields status_data_fields)
qed

text \<open>
  The claim as worded fails twice. When the application id stored with the order names
  no Application (the form script sends an identifier of its own making), a COMPLETED
  report on an order that was not yet completed triggers no email. And when the
  gateway reports COMPLETED, then PENDING, then COMPLETED again, two emails are
  triggered for the one order.
\<close>

theorem notification_once_counterexample:
  "find (\<lambda>p. merchantOrderId p = ''MO_1'') (payments store2_orphan) = Some pay1
   \<and> status pay1 = ''initiated''
   \<and> fst (fst (statusHandler 1700000360000 token_ok (Inr (Some (status_data ''COMPLETED'')))
        Accepted ''MO_1'' store2_orphan)) = 200
   \<and> outbox (snd (statusHandler 1700000360000 token_ok (Inr (Some (status_data ''COMPLETED'')))
        Accepted ''MO_1'' store2_orphan)) = []
   \<and> length (outbox (polls [poll_at 1700000360000 ''COMPLETED'', poll_at 1700000420000 ''PENDING'',
        poll_at 1700000480000 ''COMPLETED''] ''MO_1'' store2)) = 2"
  by (simp add: status_eval)

text \<open>
  C4, as the code has it. A status request that gets as far as the gateway's state
  writes all three fields of the linked Application whatever they held before: the
  payment status becomes "completed" on COMPLETED and "pending" otherwise, the
  lifecycle status becomes "paid" on COMPLETED and "pending" otherwise, the
  payment-order reference becomes the gateway's order id on COMPLETED (and stays as it
  was when a COMPLETED reply carries no order id) and is cleared otherwise.
  Applications with another identifier are left alone, and a request that does not get
  that far, or whose order names no stored Application, changes no Application.
\<close>

theorem reconcile_application_update:
  "(reaches now tr sr mo st lp d
      \<and> find (\<lambda>a. app_applicationId a = applicationId lp) (applications st) = Some a
      \<longrightarrow> find (\<lambda>a. app_applicationId a = applicationId lp)
              (applications (snd (statusHandler now tr sr mail mo st))) =
            Some (a\<lparr>paymentStatus := (if gw_state d = Some ''COMPLETED'' then ''completed'' else ''pending''),
                    paymentOrderId :=
                      (if gw_state d = Some ''COMPLETED''
                       then (case gw_orderId d of Some oid \<Rightarrow> Some oid | None \<Rightarrow> paymentOrderId a)
                       else None),
                    app_status := (if gw_state d = Some ''COMPLETED'' then ''paid'' else ''pending''),
                    app_updatedAt := now\<rparr>)
          \<and> filter (\<lambda>a. app_applicationId a \<noteq> applicationId lp)
              (applications (snd (statusHandler now tr sr mail mo st))) =
            filter (\<lambda>a. app_applicationId a \<noteq> applicationId lp) (applications st))
   \<and> ((\<forall>lp d. \<not> reaches now2 tr2 sr2 mo2 st2 lp d)
      \<longrightarrow> applications (snd (statusHandler now2 tr2 sr2 mail2 mo2 st2)) = applications st2)
   \<and> (reaches now3 tr3 sr3 mo3 st3 lp3 d3
      \<and> find (\<lambda>a. app_applicationId a = applicationId lp3) (applications st3) = None
      \<longrightarrow> applications (snd (statusHandler now3 tr3 sr3 mail3 mo3 st3)) = applications st3)"
proof (intro conjI impI)
  assume "reaches now3 tr3 sr3 mo3 st3 lp3 d3
      \<and> find (\<lambda>a. app_applicationId a = applicationId lp3) (applications st3) = None"
  then show "applications (snd (statusHandler now3 tr3 sr3 mail3 mo3 st3)) = applications st3"
    by (simp add: reached_applications [of now3 tr3 sr3 mo3 st3 lp3 d3] fOU_None)
next
  assume h: "reaches now tr sr mo st lp d
      \<and> find (\<lambda>a. app_applicationId a = applicationId lp) (applications st) = Some a"
  then have r: "reaches now tr sr mo st lp d" by simp
  have upd: "applicationUpdate now d a =
      a\<lparr>paymentStatus := (if gw_state d = Some ''COMPLETED'' then ''completed'' else ''pending''),
        paymentOrderId :=
          (if gw_state d = Some ''COMPLETED''
           then (case gw_orderId d of Some oid \<Rightarrow> Some oid | None \<Rightarrow> paymentOrderId a)
           else None),
        app_status := (if gw_state d = Some ''COMPLETED'' then ''paid'' else ''pending''),
        app_updatedAt := now\<rparr>"
    by (simp add: applicationUpdate_def localStatus_def applicationStatus_def apply_patch_def
          orderIdPatch_def split: option.splits)
  from h show "find (\<lambda>a. app_applicationId a = applicationId lp)
              (applications (snd (statusHandler now tr sr mail mo st))) =
            Some (a\<lparr>paymentStatus := (if gw_state d = Some ''COMPLETED'' then ''completed'' else ''pending''),
                    paymentOrderId :=
                      (if gw_state d = Some ''COMPLETED''
                       then (case gw_orderId d of Some oid \<Rightarrow> Some oid | None \<Rightarrow> paymentOrderId a)
                       else None),
                    app_status := (if gw_state d = Some ''COMPLETED'' then ''paid'' else ''pending''),
                    app_updatedAt := now\<rparr>)"
    by (simp only: reached_applications [OF r] upd [symmetric])
       (simp add: fOU_find applicationUpdate_key)
  show "filter (\<lambda>a. app_applicationId a \<noteq> applicationId lp)
              (applications (snd (statusHandler now tr sr mail mo st))) =
            filter (\<lambda>a. app_applicationId a \<noteq> applicationId lp) (applications st)"
    using fOU_others [of "\<lambda>a. app_applicationId a = applicationId lp" "applicationUpdate now d" "applications st"]
    by (simp add: reached_applications [OF r] applicationUpdate_key)
next
  assume "\<forall>lp d. \<not> reaches now2 tr2 sr2 mo2 st2 lp d"
  then show "applications (snd (statusHandler now2 tr2 sr2 mail2 mo2 st2)) = applications st2"
    by (rule statusHandler_unreached)
qed

lemma unreached_store1: "\<forall>lp d. \<not> reaches t tr sr ''MO_1'' store1 lp d"
  by (simp add: reaches_def store1_def store0_def)

lemma reaches_orphan:
  "t < 1700003600000 \<Longrightarrow> reaches t tr (Inr (Some d)) ''MO_1'' store2_orphan pay1 d"
  by (simp add: reaches_def tokenGranted_def store2_orphan_def store2_def store1_def store0_def
        pay1_def newPayment_def generateAuthToken_def cache_hit_def truthy_def)

lemma reaches_store3:
  "t < 1700003600000 \<Longrightarrow>
     reaches t tr (Inr (Some d)) ''MO_1'' (store3 u) (paymentUpdate u (status_data ''COMPLETED'') pay1) d"
  by (simp add: reaches_def tokenGranted_def store3_def store2_def store1_def store0_def
        pay1_def newPayment_def paymentUpdate_def generateAuthToken_def cache_hit_def truthy_def)

lemma store3_app:
  "find (\<lambda>a. app_applicationId a = applicationId (paymentUpdate u (status_data ''COMPLETED'') pay1))
     (applications (store3 u)) = Some (applicationUpdate u (status_data ''COMPLETED'') app1)"
  by (simp add: store3_def store2_def store1_def store0_def pay1_def newPayment_def app1_def
        newApplication_def paymentUpdate_def applicationUpdate_def)

lemma store3_app_reference:
  "paymentOrderId (applicationUpdate u (status_data ''COMPLETED'') app1) = Some ''OMO1''"
  by (simp add: applicationUpdate_def status_data_def apply_patch_def orderIdPatch_def)

theorem reconcile_application_update_witness:
  "find (\<lambda>a. app_applicationId a = ''NF202517000000000007'')
     (applications (snd (statusHandler 1700000360000 token_ok
        (Inr (Some (status_data ''COMPLETED''))) Accepted ''MO_1'' store2))) =
     Some (app1\<lparr>paymentStatus := ''completed'', paymentOrderId := Some ''OMO1'',
                app_status := ''paid'', app_updatedAt := 1700000360000\<rparr>)
   \<and> find (\<lambda>a. app_applicationId a = ''NF202517000000000007'')
     (applications (snd (statusHandler 1700000360000 token_ok
        (Inr (Some (status_data ''PENDING''))) Accepted ''MO_1'' store2))) =
     Some (app1\<lparr>paymentStatus := ''pending'', paymentOrderId := None,
                app_status := ''pending'', app_updatedAt := 1700000360000\<rparr>)
   \<and> map_option paymentOrderId
       (find (\<lambda>a. app_applicationId a = ''NF202517000000000007'')
          (applications (snd (statusHandler 1700000420000 token_ok
             (Inr (Some completed_bare)) Accepted ''MO_1'' (store3 1700000360000))))) =
     Some (Some ''OMO1'')
   \<and> applications (snd (statusHandler 1700000360000 token_ok
        (Inr (Some (status_data ''COMPLETED''))) Accepted ''MO_1'' store1)) = [app1]
   \<and> applications (snd (statusHandler 1700000360000 token_ok
        (Inr (Some (status_data ''COMPLETED''))) Accepted ''MO_1'' store2_orphan)) = []"
proof -
  have r: "reaches 1700000360000 token_ok (Inr (Some (status_data s))) ''MO_1'' store2 pay1
      (status_data s)" for s
    by (simp add: reaches_store2)
  have o: "reaches 1700000360000 token_ok (Inr (Some (status_data ''COMPLETED''))) ''MO_1''
      store2_orphan pay1 (status_data ''COMPLETED'')"
    by (simp add: reaches_orphan)
  have b: "reaches 1700000420000 token_ok (Inr (Some completed_bare)) ''MO_1'' (store3 1700000360000)
      (paymentUpdate 1700000360000 (status_data ''COMPLETED'') pay1) completed_bare"
    by (simp add: reaches_store3)
  have none: "applications store2_orphan = []"
    by (simp add: store2_orphan_def)
  have bare: "gw_state completed_bare = Some ''COMPLETED''" "gw_orderId completed_bare = None"
    by (simp_all add: completed_bare_def)
  have key: "applicationId (paymentUpdate u (status_data ''COMPLETED'') pay1) = ''NF202517000000000007''"
    for u
    by (simp add: paymentUpdate_def pay1_def newPayment_def)
  from reconcile_application_update
    [of 1700000360000 token_ok "Inr (Some (status_data ''COMPLETED''))" "''MO_1''" store2 pay1
        "status_data ''COMPLETED''" app1 Accepted
        1700000360000 token_ok "Inr (Some (status_data ''COMPLETED''))" "''MO_1''" store1 Accepted
        1700000360000 token_ok "Inr (Some (status_data ''COMPLETED''))" "''MO_1''" store2_orphan
        pay1 "status_data ''COMPLETED''" Accepted]
    r o store2_app unreached_store1
  have first: "find (\<lambda>a. app_applicationId a = ''NF202517000000000007'')
     (applications (snd (statusHandler 1700000360000 token_ok
        (Inr (Some (status_data ''COMPLETED''))) Accepted ''MO_1'' store2))) =
     Some (app1\<lparr>paymentStatus := ''completed'', paymentOrderId := Some ''OMO1'',
                app_status := ''paid'', app_updatedAt := 1700000360000\<rparr>)
   \<and> applications (snd (statusHandler 1700000360000 token_ok
        (Inr (Some (status_data ''COMPLETED''))) Accepted ''MO_1'' store1)) = [app1]
   \<and> applications (snd (statusHandler 1700000360000 token_ok
        (Inr (Some (status_data ''COMPLETED''))) Accepted ''MO_1'' store2_orphan)) = []"
    by (simp add: pay1_fields status_data_fields store1_fields none)
  from reconcile_application_update
    [of 1700000360000 token_ok "Inr (Some (status_data ''PENDING''))" "''MO_1''" store2 pay1
        "status_data ''PENDING''" app1 Accepted]
    r store2_app
  have second: "find (\<lambda>a. app_applicationId a = ''NF202517000000000007'')
     (applications (snd (statusHandler 1700000360000 token_ok
        (Inr (Some (status_data ''PENDING''))) Accepted ''MO_1'' store2))) =
     Some (app1\<lparr>paymentStatus := ''pending'', paymentOrderId := None,
                app_status := ''pending'', app_updatedAt := 1700000360000\<rparr>)"
    by (simp add: pay1_fields status_data_fields)
  from reconcile_application_update
    [of 1700000420000 token_ok "Inr (Some completed_bare)" "''MO_1''" "store3 1700000360000"
        "paymentUpdate 1700000360000 (status_data ''COMPLETED'') pay1" completed_bare
        "applicationUpdate 1700000360000 (status_data ''COMPLETED'') app1" Accepted]
    b store3_app [of 1700000360000]
  have third: "map_option paymentOrderId
       (find (\<lambda>a. app_applicationId a = ''NF202517000000000007'')
          (applications (snd (statusHandler 1700000420000 token_ok
             (Inr (Some completed_bare)) Accepted ''MO_1'' (store3 1700000360000))))) =
     Some (Some ''OMO1'')"
    by (simp add: key bare store3_app_reference)
  from first second third show ?thesis
    by simp
qed

text \<open>
  The claim as worded fails: a rejected application whose order is reported FAILED does
  not keep its lifecycle status, it is set back to "pending".
\<close>

theorem reconcile_application_counterexample:
  "map app_status (applications store2_rejected) = [''rejected'']
   \<and> gw_state (status_data ''FAILED'') \<noteq> Some ''COMPLETED''
   \<and> fst (fst (statusHandler 1700000360000 token_ok (Inr (Some (status_data ''FAILED'')))
        Accepted ''MO_1'' store2_rejected)) = 200
   \<and> map app_status (applications (snd (statusHandler 1700000360000 token_ok
        (Inr (Some (status_data ''FAILED''))) Accepted ''MO_1'' store2_rejected))) = [''pending'']"
  by (simp add: status_eval)

text \<open>
  C6, as the code has it. A status request that gets as far as the gateway's state
  overwrites the stored status with the image of the reported state: "completed" for
  COMPLETED, "failed" for FAILED, "pending" for anything else, whatever the stored
  status was; so a stored "completed" or "failed" is kept only while the gateway reports
  the same outcome. The order keeps its application and creation time, other orders
  are left alone, and a request that does not get that far changes no PaymentOrder.
\<close>

theorem reconcile_status_transition:
  "(reaches now tr sr mo st lp d
      \<longrightarrow> (\<exists>lp'. find (\<lambda>p. merchantOrderId p = mo)
                   (payments (snd (statusHandler now tr sr mail mo st))) = Some lp'
             \<and> status lp' = (if gw_state d = Some ''COMPLETED'' then ''completed''
                             else if gw_state d = Some ''FAILED'' then ''failed'' else ''pending'')
             \<and> applicationId lp' = applicationId lp \<and> createdAt lp' = createdAt lp)
          \<and> filter (\<lambda>p. merchantOrderId p \<noteq> mo)
               (payments (snd (statusHandler now tr sr mail mo st))) =
             filter (\<lambda>p. merchantOrderId p \<noteq> mo) (payments st))
   \<and> ((\<forall>lp d. \<not> reaches now2 tr2 sr2 mo2 st2 lp d)
      \<longrightarrow> payments (snd (statusHandler now2 tr2 sr2 mail2 mo2 st2)) = payments st2)"
proof (intro conjI impI)
  assume r: "reaches now tr sr mo st lp d"
  show "\<exists>lp'. find (\<lambda>p. merchantOrderId p = mo)
                   (payments (snd (statusHandler now tr sr mail mo st))) = Some lp'
             \<and> status lp' = (if gw_state d = Some ''COMPLETED'' then ''completed''
                             else if gw_state d = Some ''FAILED'' then ''failed'' else ''pending'')
             \<and> applicationId lp' = applicationId lp \<and> createdAt lp' = createdAt lp"
    by (simp add: reached_payment [OF r] paymentUpdate_key localStatus_def)
  show "filter (\<lambda>p. merchantOrderId p \<noteq> mo)
               (payments (snd (statusHandler now tr sr mail mo st))) =
             filter (\<lambda>p. merchantOrderId p \<noteq> mo) (payments st)"
    using fOU_others [of "\<lambda>p. merchantOrderId p = mo" "paymentUpdate now d" "payments st"]
    by (simp add: statusHandler_reached [OF r] reconcile_store paymentUpdate_key)
next
  assume "\<forall>lp d. \<not> reaches now2 tr2 sr2 mo2 st2 lp d"
  then show "payments (snd (statusHandler now2 tr2 sr2 mail2 mo2 st2)) = payments st2"
    by (rule statusHandler_unreached)
qed

lemma find_single: "find P [x] = Some y \<longleftrightarrow> P x \<and> y = x"
  by auto

theorem reconcile_status_transition_witness:
  "(\<exists>lp'. find (\<lambda>p. merchantOrderId p = ''MO_1'')
       (payments (snd (statusHandler 1700000360000 token_ok
          (Inr (Some (status_data ''COMPLETED''))) Accepted ''MO_1'' store2))) = Some lp'
      \<and> status lp' = ''completed'')
   \<and> (\<exists>lp'. find (\<lambda>p. merchantOrderId p = ''MO_1'')
       (payments (snd (statusHandler 1700000360000 token_ok
          (Inr (Some (status_data ''EXPIRED''))) Accepted ''MO_1'' store2))) = Some lp'
      \<and> status lp' = ''pending'')
   \<and> payments (snd (statusHandler 1700000360000 token_ok
        (Inr (Some (status_data ''COMPLETED''))) Accepted ''MO_1'' store1)) = []"
proof -
  have r: "reaches 1700000360000 token_ok (Inr (Some (status_data s))) ''MO_1'' store2 pay1
      (status_data s)" for s
    by (simp add: reaches_store2)
  from reconcile_status_transition
    [of 1700000360000 token_ok "Inr (Some (status_data ''COMPLETED''))" "''MO_1''" store2 pay1
        "status_data ''COMPLETED''" Accepted
        1700000360000 token_ok "Inr (Some (status_data ''COMPLETED''))" "''MO_1''" store1 Accepted]
    reconcile_status_transition
    [of 1700000360000 token_ok "Inr (Some (status_data ''EXPIRED''))" "''MO_1''" store2 pay1
        "status_data ''EXPIRED''" Accepted
        1700000360000 token_ok "Inr (Some (status_data ''COMPLETED''))" "''MO_1''" store1 Accepted]
    r unreached_store1
  show ?thesis
    by (simp add: status_data_fields store1_fields) blast
qed

text \<open>
  The claim as worded fails: a PaymentOrder stored as "completed" whose order the
  gateway then reports FAILED is moved to "failed".
\<close>

theorem reconcile_status_counterexample:
  "map status (payments (store3 1700000360000)) = [''completed'']
   \<and> fst (fst (statusHandler 1700000420000 token_ok (Inr (Some (status_data ''FAILED'')))
        Accepted ''MO_1'' (store3 1700000360000))) = 200
   \<and> map status (payments (snd (statusHandler 1700000420000 token_ok
        (Inr (Some (status_data ''FAILED''))) Accepted ''MO_1'' (store3 1700000360000)))) = [''failed'']"
  by (simp add: status_eval)

section \<open>The duplicate-payment window on a run of requests\<close>

lemma store3_fields:
  "payments (store3 t) = [paymentUpdate t (status_data ''COMPLETED'') pay1]"
  "tokenCache (store3 t) = \<lparr>token = Some ''tok'', expiresAt = Some 1700003660000\<rparr>"
  by (simp_all add: store3_def store2_def store1_def store0_def)

lemma completed_pay1:
  "status (paymentUpdate t (status_data ''COMPLETED'') pay1) = ''completed''"
  "applicationId (paymentUpdate t (status_data ''COMPLETED'') pay1) = ''NF202517000000000007''"
  "merchantOrderId (paymentUpdate t (status_data ''COMPLETED'') pay1) = ''MO_1''"
  "createdAt (paymentUpdate t (status_data ''COMPLETED'') pay1) = 1700000060000"
  "updatedAt (paymentUpdate t (status_data ''COMPLETED'') pay1) = t"
  by (simp_all add: paymentUpdate_def localStatus_def status_data_def pay1_def newPayment_def)

lemma granted_store3: "now < 1700003600000 \<Longrightarrow> tokenGranted now tr (store3 t)"
  by (simp add: tokenGranted_def store3_fields token_cached)

theorem initiate_duplicate_window_witness:
  "fst (fst (initiate 1700001860000 token_ok (Inr (Some (order_data ''OMO2''))) (pay_req ''MO_2'')
       (store3 1700000360000))) = 409
   \<and> snd (initiate 1700001860000 token_ok (Inr (Some (order_data ''OMO2''))) (pay_req ''MO_2'')
       (store3 1700000360000)) = store3 1700000360000
   \<and> fst (fst (initiate 1700001861000 token_ok (Inr (Some (order_data ''OMO2''))) (pay_req ''MO_2'')
       (store3 1700000360000))) = 200"
proof -
  from initiate_duplicate_window
    [of "pay_req ''MO_2''" "''NF202517000000000007''" "''MO_2''" "store3 1700000360000"
        "paymentUpdate 1700000360000 (status_data ''COMPLETED'') pay1" 1700001860000 token_ok
        "Inr (Some (order_data ''OMO2''))" "order_data ''OMO2''"]
  have a: "fst (fst (initiate 1700001860000 token_ok (Inr (Some (order_data ''OMO2''))) (pay_req ''MO_2'')
       (store3 1700000360000))) = 409
   \<and> snd (initiate 1700001860000 token_ok (Inr (Some (order_data ''OMO2''))) (pay_req ''MO_2'')
       (store3 1700000360000)) = store3 1700000360000"
    by (simp add: san_pay_req pay_req_fields store3_fields completed_pay1)
  from initiate_duplicate_window
    [of "pay_req ''MO_2''" "''NF202517000000000007''" "''MO_2''" "store3 1700000360000"
        "paymentUpdate 1700000360000 (status_data ''COMPLETED'') pay1" 1700001861000 token_ok
        "Inr (Some (order_data ''OMO2''))" "order_data ''OMO2''"]
  have b: "fst (fst (initiate 1700001861000 token_ok (Inr (Some (order_data ''OMO2''))) (pay_req ''MO_2'')
       (store3 1700000360000))) = 200"
    by (simp add: san_pay_req pay_req_fields store3_fields completed_pay1 granted_store3
          order_data_def truthy_def)
  from a b show ?thesis by simp
qed

text \<open>
  The claim of C5 as worded fails: the order MO_1 is created at 1700000060000 and found
  COMPLETED by the poll at 1700001920000, 31 minutes later; a second initiation for
  the same application one minute after that is accepted, although the order reached
  "completed" within the last 30 minutes.
\<close>

theorem initiate_duplicate_window_counterexample:
  "snd (initiate 1700000060000 token_ok (Inr (Some (order_data ''OMO1''))) (pay_req ''MO_1'') store1)
     = store2
   \<and> map status (payments store2) = [''initiated'']
   \<and> snd (statusHandler 1700001920000 token_ok (Inr (Some (status_data ''COMPLETED''))) Accepted
        ''MO_1'' store2) = store3 1700001920000
   \<and> map status (payments (store3 1700001920000)) = [''completed'']
   \<and> map applicationId (payments (store3 1700001920000)) = [''NF202517000000000007'']
   \<and> req_applicationId (pay_req ''MO_2'') = Some ''NF202517000000000007''
   \<and> fst (fst (initiate 1700001980000 token_ok (Inr (Some (order_data ''OMO2''))) (pay_req ''MO_2'')
        (store3 1700001920000))) = 200"
  by (simp add: initiate_store1 poll_store2 initiate_store3_late store2_fields pay1_fields
        store3_fields completed_pay1 pay_req_fields)

end
